theory Spec2Isabelle
  imports Complex_Main
begin

section \<open>Python values\<close>

text \<open>
  The program (\<^verbatim>\<open>src/app.py\<close>) works on JSON-like data: every entity is a \<^verbatim>\<open>dict\<close>
  read with \<^verbatim>\<open>.get(key)\<close> or \<^verbatim>\<open>.get(key, default)\<close>, and the leaves are scalars.

  \<^item> \<open>pyval\<close> is a Python scalar: \<^verbatim>\<open>None\<close>, a \<^verbatim>\<open>bool\<close>, a finite number (an
    \<^verbatim>\<open>int\<close> or a \<^verbatim>\<open>float\<close>, represented by its mathematical value; NaN and the
    infinities are not represented) or a \<^verbatim>\<open>str\<close>. A \<open>string\<close> is read as a sequence
    of code points below 256.
  \<^item> A field of a dict is a \<open>pyval option\<close>: \<open>None\<close> is an absent key, \<open>Some PNone\<close> is a
    key that holds Python's \<^verbatim>\<open>None\<close>.
\<close>

datatype pyval = PNone | PBool bool | PNum rat | PStr string

datatype py_error = AttributeError | TypeError

text \<open>\<^verbatim>\<open>d.get(key, default)\<close> and \<^verbatim>\<open>d.get(key)\<close> on a field.\<close>

definition get_or :: "'a option \<Rightarrow> 'a \<Rightarrow> 'a" where
  "get_or field dflt = (case field of None \<Rightarrow> dflt | Some v \<Rightarrow> v)"

definition get_none :: "pyval option \<Rightarrow> pyval" where
  "get_none field = get_or field PNone"

text \<open>
  Python's \<^verbatim>\<open>==\<close> on scalars: \<^verbatim>\<open>bool\<close> is a subtype of \<^verbatim>\<open>int\<close>, so booleans and
  numbers compare by numeric value (\<^verbatim>\<open>True == 1\<close>, \<^verbatim>\<open>1 == 1.0\<close>); a string equals only
  an identical string, \<^verbatim>\<open>None\<close> only \<^verbatim>\<open>None\<close>. \<^verbatim>\<open>a != b\<close> is \<open>\<not> py_eq a b\<close>.
\<close>

fun num_of :: "pyval \<Rightarrow> rat option" where
  "num_of (PBool b) = Some (if b then 1 else 0)"
| "num_of (PNum n) = Some n"
| "num_of PNone = None"
| "num_of (PStr s) = None"

definition py_eq :: "pyval \<Rightarrow> pyval \<Rightarrow> bool" where
  "py_eq a b =
     (case (num_of a, num_of b) of
        (Some x, Some y) \<Rightarrow> x = y
      | (None, None) \<Rightarrow> a = b
      | _ \<Rightarrow> False)"

text \<open>Truth value of a scalar, as \<^verbatim>\<open>if x\<close>, \<^verbatim>\<open>not x\<close> and \<^verbatim>\<open>bool(x)\<close> compute it.\<close>

fun truthy :: "pyval \<Rightarrow> bool" where
  "truthy PNone = False"
| "truthy (PBool b) = b"
| "truthy (PNum n) = (n \<noteq> 0)"
| "truthy (PStr s) = (s \<noteq> [])"

text \<open>\<^verbatim>\<open>value in xs\<close> for a list \<open>xs\<close>: some member is identical or equal to the value.\<close>

definition py_in :: "pyval \<Rightarrow> pyval list \<Rightarrow> bool" where
  "py_in v xs = list_ex (\<lambda>x. py_eq x v) xs"

section \<open>The tool definition model\<close>

record condition =
  c_input_id :: "pyval option"
  c_op :: "pyval option"
  c_value :: "pyval option"

record outcome_message =
  o_level :: "pyval option"
  o_message :: "pyval option"

record recommendation_rule =
  r_name :: "pyval option"
  r_level :: "pyval option"
  r_message :: "pyval option"
  r_conditions :: "condition list option"

record scoring_rule =
  s_input_id :: "pyval option"
  s_favor_values :: "pyval list option"
  s_against_values :: "pyval list option"
  s_invert_favor :: "pyval option"

record input_field =
  i_id :: "pyval option"
  i_label :: "pyval option"
  i_type :: "pyval option"
  i_options :: "pyval list option"

record tool_definition =
  t_name :: "pyval option"
  t_description :: "pyval option"
  t_inputs :: "input_field list option"
  t_scoring_rules :: "scoring_rule list option"
  t_rules :: "recommendation_rule list option"
  t_fallback :: "outcome_message option"

text \<open>
  The \<^verbatim>\<open>values\<close> argument of the engine maps input ids (strings) to scalars.
  \<^verbatim>\<open>values.get(k)\<close> is \<^verbatim>\<open>None\<close> for a key that is not there; a key that is not a
  string is never there.
\<close>

type_synonym value_map = "string \<rightharpoonup> pyval"

fun is_key :: "value_map \<Rightarrow> pyval \<Rightarrow> bool" where
  "is_key vals (PStr k) = (vals k \<noteq> None)"
| "is_key vals _ = False"

fun values_get :: "value_map \<Rightarrow> pyval \<Rightarrow> pyval" where
  "values_get vals (PStr k) = get_none (vals k)"
| "values_get vals _ = PNone"

section \<open>The evaluation engine\<close>

subsection \<open>evaluate_rules\<close>

text \<open>
  The inner loop of \<^verbatim>\<open>evaluate_rules\<close> (lines 198-205): \<^verbatim>\<open>matches\<close> starts true and
  the first condition with \<^verbatim>\<open>actual != expected\<close> sets it to false and breaks.
\<close>

fun conditions_match :: "condition list \<Rightarrow> value_map \<Rightarrow> bool" where
  "conditions_match [] vals = True"
| "conditions_match (cond # rest) vals =
     (let input_id = get_none (c_input_id cond);
          expected = get_none (c_value cond);
          actual = values_get vals input_id
      in if \<not> py_eq actual expected then False else conditions_match rest vals)"

text \<open>
  The outer loop (lines 194-207): a rule with a false (empty) condition list is skipped
  by \<^verbatim>\<open>continue\<close>; the first rule that matches returns its level and message. \<open>None\<close> is
  the loop running to its end.
\<close>

fun rules_loop :: "recommendation_rule list \<Rightarrow> value_map \<Rightarrow> (pyval \<times> pyval) option" where
  "rules_loop [] vals = None"
| "rules_loop (rule # rest) vals =
     (let conditions = get_or (r_conditions rule) []
      in if conditions = [] then rules_loop rest vals
         else if conditions_match conditions vals
              then Some (get_or (r_level rule) (PStr ''info''), get_or (r_message rule) (PStr ''''))
              else rules_loop rest vals)"

definition default_fallback :: outcome_message where
  "default_fallback =
     \<lparr>o_level = Some (PStr ''warning''), o_message = Some (PStr ''No rules matched.'')\<rparr>"

definition evaluate_rules :: "tool_definition \<Rightarrow> value_map \<Rightarrow> pyval \<times> pyval" where
  "evaluate_rules tool vals =
     (case rules_loop (get_or (t_rules tool) []) vals of
        Some result \<Rightarrow> result
      | None \<Rightarrow>
          (let fallback = get_or (t_fallback tool) default_fallback
           in (get_or (o_level fallback) (PStr ''warning''),
               get_or (o_message fallback) (PStr ''No rules matched.''))))"

subsection \<open>compute_scores\<close>

text \<open>The body of the loop of \<^verbatim>\<open>compute_scores\<close> from line 219 on: the score of one rule.\<close>

definition rule_score :: "scoring_rule \<Rightarrow> value_map \<Rightarrow> pyval \<Rightarrow> int" where
  "rule_score rule vals input_id =
     (let val = values_get vals input_id;
          favor_values = get_or (s_favor_values rule) [];
          against_values = get_or (s_against_values rule) [];
          invert = get_or (s_invert_favor rule) (PBool False)
      in if py_in val favor_values then (if truthy invert then - 1 else 1)
         else if py_in val against_values then (if truthy invert then 1 else - 1)
         else 0)"

fun scores_loop :: "scoring_rule list \<Rightarrow> value_map \<Rightarrow> int \<times> int \<Rightarrow> int \<times> int" where
  "scores_loop [] vals (plus_n, minus_n) = (plus_n, minus_n)"
| "scores_loop (rule # rest) vals (plus_n, minus_n) =
     (let input_id = get_none (s_input_id rule)
      in if \<not> truthy input_id then scores_loop rest vals (plus_n, minus_n)
         else (let score = rule_score rule vals input_id
               in if score = 1 then scores_loop rest vals (plus_n + 1, minus_n)
                  else if score = - 1 then scores_loop rest vals (plus_n, minus_n + 1)
                  else scores_loop rest vals (plus_n, minus_n)))"

definition compute_scores :: "tool_definition \<Rightarrow> value_map \<Rightarrow> int \<times> int" where
  "compute_scores tool vals = scores_loop (get_or (t_scoring_rules tool) []) vals (0, 0)"

section \<open>The tabular transcoder\<close>

subsection \<open>Strings: strip, split and join\<close>

text \<open>
  \<^verbatim>\<open>str.strip()\<close> removes leading and trailing whitespace. The whitespace code points
  below 256 are the ones CPython's \<^verbatim>\<open>str.isspace\<close> accepts: 9-13, 28-32, 133 and 160.
\<close>

definition py_isspace :: "char \<Rightarrow> bool" where
  "py_isspace c =
     (let n = (of_char c :: nat)
      in (9 \<le> n \<and> n \<le> 13) \<or> (28 \<le> n \<and> n \<le> 32) \<or> n = 133 \<or> n = 160)"

definition strip :: "string \<Rightarrow> string" where
  "strip s = rev (dropWhile py_isspace (rev (dropWhile py_isspace s)))"

text \<open>\<^verbatim>\<open>s.split(",")\<close>: one more piece than there are commas; \<^verbatim>\<open>"".split(",") == [""]\<close>.\<close>

fun split_comma :: "string \<Rightarrow> string list" where
  "split_comma [] = [[]]"
| "split_comma (c # cs) =
     (if c = CHR '','' then [] # split_comma cs
      else (case split_comma cs of
              [] \<Rightarrow> [[c]]
            | piece # pieces \<Rightarrow> (c # piece) # pieces))"

text \<open>\<^verbatim>\<open>", ".join(xs)\<close> on strings.\<close>

fun join_comma :: "string list \<Rightarrow> string" where
  "join_comma [] = []"
| "join_comma [x] = x"
| "join_comma (x # y # ys) = x @ '', '' @ join_comma (y # ys)"

text \<open>
  \<^verbatim>\<open>", ".join(xs)\<close> on a list of scalars raises \<^verbatim>\<open>TypeError\<close> when an item is not a
  \<^verbatim>\<open>str\<close>; \<^verbatim>\<open>x.strip()\<close> raises \<^verbatim>\<open>AttributeError\<close> when \<open>x\<close> is not a \<^verbatim>\<open>str\<close>.
\<close>

fun str_items :: "pyval list \<Rightarrow> py_error + string list" where
  "str_items [] = Inr []"
| "str_items (PStr s # rest) =
     (case str_items rest of Inl e \<Rightarrow> Inl e | Inr ss \<Rightarrow> Inr (s # ss))"
| "str_items (_ # rest) = Inl TypeError"

definition py_join :: "pyval list \<Rightarrow> py_error + string" where
  "py_join xs = (case str_items xs of Inl e \<Rightarrow> Inl e | Inr ss \<Rightarrow> Inr (join_comma ss))"

fun py_strip :: "pyval \<Rightarrow> py_error + pyval" where
  "py_strip (PStr s) = Inr (PStr (strip s))"
| "py_strip _ = Inl AttributeError"

subsection \<open>normalize_options\<close>

text \<open>
  A cell of a comma-separated column holds \<^verbatim>\<open>None\<close>, a \<^verbatim>\<open>str\<close> or a list of \<^verbatim>\<open>str\<close>
  (\<^verbatim>\<open>str(o)\<close> of a \<^verbatim>\<open>str\<close> is the string itself).
\<close>

datatype csv_cell = CsvNone | CsvStr string | CsvList "string list"

fun normalize_options :: "csv_cell \<Rightarrow> string list" where
  "normalize_options CsvNone = []"
| "normalize_options (CsvList opts) =
     (if opts = [] then [] else map strip (filter (\<lambda>opt. strip opt \<noteq> []) opts))"
| "normalize_options (CsvStr s) =
     (if s = [] then [] else map strip (filter (\<lambda>opt. strip opt \<noteq> []) (split_comma s)))"

subsection \<open>Rows\<close>

record input_row =
  ir_id :: "pyval option"
  ir_label :: "pyval option"
  ir_type :: "pyval option"
  ir_options_csv :: "csv_cell option"

record scoring_row =
  sr_input_id :: "pyval option"
  sr_favor_values_csv :: "csv_cell option"
  sr_against_values_csv :: "csv_cell option"
  sr_invert_favor :: "pyval option"

record rule_row =
  rr_name :: "pyval option"
  rr_level :: "pyval option"
  rr_message :: "pyval option"
  rr_input_id_1 :: "pyval option"
  rr_value_1 :: "pyval option"
  rr_input_id_2 :: "pyval option"
  rr_value_2 :: "pyval option"
  rr_input_id_3 :: "pyval option"
  rr_value_3 :: "pyval option"

text \<open>
  The loops of the converters. \<open>map_rows\<close> appends one row per item and stops at the
  first exception; \<open>collect_rows\<close> does the same where a row may be skipped by
  \<^verbatim>\<open>continue\<close> (\<open>Inr None\<close>).
\<close>

fun map_rows :: "('a \<Rightarrow> py_error + 'b) \<Rightarrow> 'a list \<Rightarrow> py_error + 'b list" where
  "map_rows f [] = Inr []"
| "map_rows f (x # xs) =
     (case f x of
        Inl e \<Rightarrow> Inl e
      | Inr y \<Rightarrow> (case map_rows f xs of Inl e \<Rightarrow> Inl e | Inr ys \<Rightarrow> Inr (y # ys)))"

fun collect_rows :: "('a \<Rightarrow> py_error + 'b option) \<Rightarrow> 'a list \<Rightarrow> py_error + 'b list" where
  "collect_rows f [] = Inr []"
| "collect_rows f (x # xs) =
     (case f x of
        Inl e \<Rightarrow> Inl e
      | Inr None \<Rightarrow> collect_rows f xs
      | Inr (Some y) \<Rightarrow> (case collect_rows f xs of Inl e \<Rightarrow> Inl e | Inr ys \<Rightarrow> Inr (y # ys)))"

subsection \<open>Inputs\<close>

definition input_row_of :: "input_field \<Rightarrow> py_error + input_row" where
  "input_row_of item =
     (case py_join (get_or (i_options item) []) of
        Inl e \<Rightarrow> Inl e
      | Inr csv \<Rightarrow>
          Inr \<lparr>ir_id = Some (get_or (i_id item) (PStr '''')),
               ir_label = Some (get_or (i_label item) (PStr '''')),
               ir_type = Some (get_or (i_type item) (PStr ''select'')),
               ir_options_csv = Some (CsvStr csv)\<rparr>)"

definition tool_to_input_rows :: "tool_definition \<Rightarrow> py_error + input_row list" where
  "tool_to_input_rows tool = map_rows input_row_of (get_or (t_inputs tool) [])"

definition input_of_row :: "input_row \<Rightarrow> py_error + input_field option" where
  "input_of_row row =
     (if \<not> truthy (get_none (ir_id row)) then Inr None
      else case py_strip (get_none (ir_id row)) of
        Inl e \<Rightarrow> Inl e
      | Inr ident \<Rightarrow>
          (case py_strip (get_or (ir_label row) (PStr '''')) of
             Inl e \<Rightarrow> Inl e
           | Inr label \<Rightarrow>
               Inr (Some \<lparr>i_id = Some ident,
                          i_label = Some label,
                          i_type = Some (get_or (ir_type row) (PStr ''select'')),
                          i_options = Some (map PStr (normalize_options
                                         (get_or (ir_options_csv row) (CsvStr ''''))))\<rparr>)))"

definition input_rows_to_tool :: "input_row list \<Rightarrow> py_error + input_field list" where
  "input_rows_to_tool rows = collect_rows input_of_row rows"

subsection \<open>Scoring rules\<close>

definition scoring_row_of :: "scoring_rule \<Rightarrow> py_error + scoring_row" where
  "scoring_row_of item =
     (case py_join (get_or (s_favor_values item) []) of
        Inl e \<Rightarrow> Inl e
      | Inr favor_csv \<Rightarrow>
          (case py_join (get_or (s_against_values item) []) of
             Inl e \<Rightarrow> Inl e
           | Inr against_csv \<Rightarrow>
               Inr \<lparr>sr_input_id = Some (get_or (s_input_id item) (PStr '''')),
                    sr_favor_values_csv = Some (CsvStr favor_csv),
                    sr_against_values_csv = Some (CsvStr against_csv),
                    sr_invert_favor =
                      Some (PBool (truthy (get_or (s_invert_favor item) (PBool False))))\<rparr>))"

definition tool_to_scoring_rows :: "tool_definition \<Rightarrow> py_error + scoring_row list" where
  "tool_to_scoring_rows tool = map_rows scoring_row_of (get_or (t_scoring_rules tool) [])"

definition scoring_of_row :: "scoring_row \<Rightarrow> py_error + scoring_rule option" where
  "scoring_of_row row =
     (if \<not> truthy (get_none (sr_input_id row)) then Inr None
      else case py_strip (get_none (sr_input_id row)) of
        Inl e \<Rightarrow> Inl e
      | Inr ident \<Rightarrow>
          Inr (Some \<lparr>s_input_id = Some ident,
                     s_favor_values = Some (map PStr (normalize_options
                                       (get_or (sr_favor_values_csv row) (CsvStr '''')))),
                     s_against_values = Some (map PStr (normalize_options
                                         (get_or (sr_against_values_csv row) (CsvStr '''')))),
                     s_invert_favor =
                       Some (PBool (truthy (get_or (sr_invert_favor row) (PBool False))))\<rparr>))"

definition scoring_rows_to_tool :: "scoring_row list \<Rightarrow> py_error + scoring_rule list" where
  "scoring_rows_to_tool rows = collect_rows scoring_of_row rows"

subsection \<open>Recommendation rules\<close>

text \<open>
  The fields \<^verbatim>\<open>input_id_{idx + 1}\<close> and \<^verbatim>\<open>value_{idx + 1}\<close> of a row, for \<open>idx\<close> in
  \<^verbatim>\<open>range(3)\<close>.
\<close>

definition slot_input_id :: "rule_row \<Rightarrow> nat \<Rightarrow> pyval option" where
  "slot_input_id row idx =
     (if idx = 0 then rr_input_id_1 row
      else if idx = 1 then rr_input_id_2 row
      else rr_input_id_3 row)"

definition slot_value :: "rule_row \<Rightarrow> nat \<Rightarrow> pyval option" where
  "slot_value row idx =
     (if idx = 0 then rr_value_1 row
      else if idx = 1 then rr_value_2 row
      else rr_value_3 row)"

text \<open>The two cells that \<^verbatim>\<open>tool_to_rule_rows\<close> writes for slot \<open>idx\<close> (lines 141-146).\<close>

definition id_cell :: "condition list \<Rightarrow> nat \<Rightarrow> pyval" where
  "id_cell conditions idx =
     (if idx < length conditions then get_or (c_input_id (conditions ! idx)) (PStr '''')
      else PStr '''')"

definition value_cell :: "condition list \<Rightarrow> nat \<Rightarrow> pyval" where
  "value_cell conditions idx =
     (if idx < length conditions then get_or (c_value (conditions ! idx)) (PStr '''')
      else PStr '''')"

definition rule_row_of :: "recommendation_rule \<Rightarrow> rule_row" where
  "rule_row_of rule =
     (let conditions = get_or (r_conditions rule) []
      in \<lparr>rr_name = Some (get_or (r_name rule) (PStr '''')),
          rr_level = Some (get_or (r_level rule) (PStr ''info'')),
          rr_message = Some (get_or (r_message rule) (PStr '''')),
          rr_input_id_1 = Some (id_cell conditions 0),
          rr_value_1 = Some (value_cell conditions 0),
          rr_input_id_2 = Some (id_cell conditions 1),
          rr_value_2 = Some (value_cell conditions 1),
          rr_input_id_3 = Some (id_cell conditions 2),
          rr_value_3 = Some (value_cell conditions 2)\<rparr>)"

definition tool_to_rule_rows :: "tool_definition \<Rightarrow> rule_row list" where
  "tool_to_rule_rows tool = map rule_row_of (get_or (t_rules tool) [])"

text \<open>
  The inner loop of \<^verbatim>\<open>rule_rows_to_tool\<close> over the slots (lines 157-161), with the list
  \<^verbatim>\<open>conditions\<close> built so far; it is run on \<open>[0, 1, 2]\<close> from the empty list.
\<close>

fun row_conditions :: "rule_row \<Rightarrow> nat list \<Rightarrow> condition list \<Rightarrow> py_error + condition list" where
  "row_conditions row [] conditions = Inr conditions"
| "row_conditions row (idx # idxs) conditions =
     (case py_strip (get_or (slot_input_id row idx) (PStr '''')) of
        Inl e \<Rightarrow> Inl e
      | Inr input_id \<Rightarrow>
          (let val = get_or (slot_value row idx) (PStr '''')
           in if truthy input_id \<and> \<not> py_eq val (PStr '''')
              then row_conditions row idxs
                     (conditions @ [\<lparr>c_input_id = Some input_id, c_op = Some (PStr ''equals''),
                                      c_value = Some val\<rparr>])
              else row_conditions row idxs conditions))"

definition rule_of_row :: "rule_row \<Rightarrow> py_error + recommendation_rule option" where
  "rule_of_row row =
     (if \<not> truthy (get_none (rr_name row)) then Inr None
      else case row_conditions row [0, 1, 2] [] of
        Inl e \<Rightarrow> Inl e
      | Inr conditions \<Rightarrow>
          Inr (Some \<lparr>r_name = Some (get_or (rr_name row) (PStr '''')),
                     r_level = Some (get_or (rr_level row) (PStr ''info'')),
                     r_message = Some (get_or (rr_message row) (PStr '''')),
                     r_conditions = Some conditions\<rparr>))"

definition rule_rows_to_tool :: "rule_row list \<Rightarrow> py_error + recommendation_rule list" where
  "rule_rows_to_tool rows = collect_rows rule_of_row rows"

section \<open>Notions used in the statements\<close>

subsection \<open>Matching of recommendation rules\<close>

text \<open>
  A condition holds when the value stored under its input id equals (Python \<^verbatim>\<open>==\<close>) the
  expected value (\<^verbatim>\<open>None\<close> when the condition has no \<^verbatim>\<open>value\<close> key); when the input id
  is no key of \<^verbatim>\<open>values\<close>, the condition holds exactly when the expected value is
  \<^verbatim>\<open>None\<close>.
\<close>

definition cond_holds :: "condition \<Rightarrow> value_map \<Rightarrow> bool" where
  "cond_holds cond vals =
     (let input_id = get_none (c_input_id cond);
          expected = get_none (c_value cond)
      in if is_key vals input_id then py_eq (values_get vals input_id) expected
         else expected = PNone)"

definition rule_matches :: "recommendation_rule \<Rightarrow> value_map \<Rightarrow> bool" where
  "rule_matches rule vals =
     (get_or (r_conditions rule) [] \<noteq> [] \<and>
      list_all (\<lambda>cond. cond_holds cond vals) (get_or (r_conditions rule) []))"

text \<open>
  The reading that takes a missing key for a non-match: a condition holds iff the key is
  present and its value equals the expected one.
\<close>

definition claimed_cond_holds :: "condition \<Rightarrow> value_map \<Rightarrow> bool" where
  "claimed_cond_holds cond vals =
     (let input_id = get_none (c_input_id cond);
          expected = get_none (c_value cond)
      in is_key vals input_id \<and> py_eq (values_get vals input_id) expected)"

definition claimed_rule_matches :: "recommendation_rule \<Rightarrow> value_map \<Rightarrow> bool" where
  "claimed_rule_matches rule vals =
     (get_or (r_conditions rule) [] \<noteq> [] \<and>
      list_all (\<lambda>cond. claimed_cond_holds cond vals) (get_or (r_conditions rule) []))"

text \<open>The test that the loop of \<^verbatim>\<open>evaluate_rules\<close> itself makes on a rule.\<close>

definition code_matches :: "recommendation_rule \<Rightarrow> value_map \<Rightarrow> bool" where
  "code_matches rule vals =
     (get_or (r_conditions rule) [] \<noteq> [] \<and>
      conditions_match (get_or (r_conditions rule) []) vals)"

definition rule_outcome :: "recommendation_rule \<Rightarrow> pyval \<times> pyval" where
  "rule_outcome rule =
     (get_or (r_level rule) (PStr ''info''), get_or (r_message rule) (PStr ''''))"

definition fallback_outcome :: "tool_definition \<Rightarrow> pyval \<times> pyval" where
  "fallback_outcome tool =
     (case t_fallback tool of
        None \<Rightarrow> (PStr ''warning'', PStr ''No rules matched.'')
      | Some fb \<Rightarrow> (get_or (o_level fb) (PStr ''warning''),
                   get_or (o_message fb) (PStr ''No rules matched.'')))"

text \<open>The outcome of the first rule, in sequence order, that satisfies a notion of matching.\<close>

definition first_match ::
  "(recommendation_rule \<Rightarrow> value_map \<Rightarrow> bool) \<Rightarrow> tool_definition \<Rightarrow> value_map \<Rightarrow> pyval \<times> pyval" where
  "first_match matches tool vals =
     (case find (\<lambda>rule. matches rule vals) (get_or (t_rules tool) []) of
        Some rule \<Rightarrow> rule_outcome rule
      | None \<Rightarrow> fallback_outcome tool)"

subsection \<open>Polarity of scoring rules\<close>

definition raw_polarity :: "pyval \<Rightarrow> pyval list \<Rightarrow> pyval list \<Rightarrow> int" where
  "raw_polarity v favor_values against_values =
     (if py_in v favor_values then 1 else if py_in v against_values then - 1 else 0)"

text \<open>The value classified is \<^verbatim>\<open>values.get(input_id)\<close>, which is \<^verbatim>\<open>None\<close> for a missing key.\<close>

definition polarity :: "scoring_rule \<Rightarrow> value_map \<Rightarrow> int" where
  "polarity rule vals =
     (let raw = raw_polarity (values_get vals (get_none (s_input_id rule)))
                  (get_or (s_favor_values rule) []) (get_or (s_against_values rule) [])
      in if truthy (get_or (s_invert_favor rule) (PBool False)) then - raw else raw)"

text \<open>The reading that gives a missing key the polarity 0 whatever the two lists hold.\<close>

definition claimed_polarity :: "scoring_rule \<Rightarrow> value_map \<Rightarrow> int" where
  "claimed_polarity rule vals =
     (if \<not> is_key vals (get_none (s_input_id rule)) then 0 else polarity rule vals)"

text \<open>A scoring rule takes part when its \<^verbatim>\<open>input_id\<close> is true (a non-empty string).\<close>

definition scored :: "scoring_rule \<Rightarrow> bool" where
  "scored rule = truthy (get_none (s_input_id rule))"

definition count_polarity ::
  "(scoring_rule \<Rightarrow> value_map \<Rightarrow> int) \<Rightarrow> int \<Rightarrow> scoring_rule list \<Rightarrow> value_map \<Rightarrow> int" where
  "count_polarity pol_of pol rules vals =
     int (length (filter (\<lambda>rule. scored rule \<and> pol_of rule vals = pol) rules))"

subsection \<open>Strings and models that survive the round trip\<close>

definition trimmed :: "string \<Rightarrow> bool" where
  "trimmed s = (s = [] \<or> (\<not> py_isspace (hd s) \<and> \<not> py_isspace (last s)))"

definition csv_safe :: "string \<Rightarrow> bool" where
  "csv_safe s = (CHR '','' \<notin> set s)"

definition option_ok :: "string \<Rightarrow> bool" where
  "option_ok s = (s \<noteq> [] \<and> csv_safe s \<and> trimmed s)"

definition clean_id :: "pyval option \<Rightarrow> bool" where
  "clean_id field = (case field of Some (PStr s) \<Rightarrow> s \<noteq> [] \<and> trimmed s | _ \<Rightarrow> False)"

definition clean_text :: "pyval option \<Rightarrow> bool" where
  "clean_text field = (case field of Some (PStr s) \<Rightarrow> trimmed s | _ \<Rightarrow> False)"

definition clean_option :: "pyval \<Rightarrow> bool" where
  "clean_option v = (case v of PStr s \<Rightarrow> option_ok s | _ \<Rightarrow> False)"

definition clean_options :: "pyval list option \<Rightarrow> bool" where
  "clean_options field = (case field of Some xs \<Rightarrow> list_all clean_option xs | None \<Rightarrow> False)"

definition input_ok :: "input_field \<Rightarrow> bool" where
  "input_ok item =
     (clean_id (i_id item) \<and> clean_text (i_label item) \<and> i_type item \<noteq> None \<and>
      clean_options (i_options item))"

definition scoring_ok :: "scoring_rule \<Rightarrow> bool" where
  "scoring_ok item =
     (clean_id (s_input_id item) \<and> clean_options (s_favor_values item) \<and>
      clean_options (s_against_values item) \<and>
      (case s_invert_favor item of Some (PBool b) \<Rightarrow> True | _ \<Rightarrow> False))"

definition condition_ok :: "condition \<Rightarrow> bool" where
  "condition_ok cond =
     (clean_id (c_input_id cond) \<and> c_op cond = Some (PStr ''equals'') \<and>
      (case c_value cond of Some v \<Rightarrow> v \<noteq> PStr '''' | None \<Rightarrow> False))"

definition rule_ok :: "recommendation_rule \<Rightarrow> bool" where
  "rule_ok rule =
     ((case r_name rule of Some v \<Rightarrow> truthy v | None \<Rightarrow> False) \<and>
      r_level rule \<noteq> None \<and> r_message rule \<noteq> None \<and>
      (case r_conditions rule of
         Some conds \<Rightarrow> length conds \<le> 3 \<and> list_all condition_ok conds
       | None \<Rightarrow> False))"

definition tool_ok :: "tool_definition \<Rightarrow> bool" where
  "tool_ok tool =
     (list_all input_ok (get_or (t_inputs tool) []) \<and>
      list_all scoring_ok (get_or (t_scoring_rules tool) []) \<and>
      list_all rule_ok (get_or (t_rules tool) []))"

text \<open>
  The weaker requirement on a model: at most 3 conditions per rule, the key fields, the
  condition ids and the condition values non-empty, and no comma in any string.
\<close>

definition nonempty_safe_str :: "pyval option \<Rightarrow> bool" where
  "nonempty_safe_str field = (case field of Some (PStr s) \<Rightarrow> s \<noteq> [] \<and> csv_safe s | _ \<Rightarrow> False)"

definition safe_str :: "pyval option \<Rightarrow> bool" where
  "safe_str field = (case field of Some (PStr s) \<Rightarrow> csv_safe s | _ \<Rightarrow> False)"

definition safe_option :: "pyval \<Rightarrow> bool" where
  "safe_option v = (case v of PStr s \<Rightarrow> csv_safe s | _ \<Rightarrow> False)"

definition safe_options :: "pyval list option \<Rightarrow> bool" where
  "safe_options field = (case field of Some xs \<Rightarrow> list_all safe_option xs | None \<Rightarrow> False)"

definition claimed_input_ok :: "input_field \<Rightarrow> bool" where
  "claimed_input_ok item =
     (nonempty_safe_str (i_id item) \<and> safe_str (i_label item) \<and> safe_str (i_type item) \<and>
      safe_options (i_options item))"

definition claimed_scoring_ok :: "scoring_rule \<Rightarrow> bool" where
  "claimed_scoring_ok item =
     (nonempty_safe_str (s_input_id item) \<and> safe_options (s_favor_values item) \<and>
      safe_options (s_against_values item) \<and>
      (case s_invert_favor item of Some (PBool b) \<Rightarrow> True | _ \<Rightarrow> False))"

definition claimed_condition_ok :: "condition \<Rightarrow> bool" where
  "claimed_condition_ok cond =
     (nonempty_safe_str (c_input_id cond) \<and> c_op cond = Some (PStr ''equals'') \<and>
      nonempty_safe_str (c_value cond))"

definition claimed_rule_ok :: "recommendation_rule \<Rightarrow> bool" where
  "claimed_rule_ok rule =
     (nonempty_safe_str (r_name rule) \<and> safe_str (r_level rule) \<and> safe_str (r_message rule) \<and>
      (case r_conditions rule of
         Some conds \<Rightarrow> length conds \<le> 3 \<and> list_all claimed_condition_ok conds
       | None \<Rightarrow> False))"

definition claimed_tool_ok :: "tool_definition \<Rightarrow> bool" where
  "claimed_tool_ok tool =
     (list_all claimed_input_ok (get_or (t_inputs tool) []) \<and>
      list_all claimed_scoring_ok (get_or (t_scoring_rules tool) []) \<and>
      list_all claimed_rule_ok (get_or (t_rules tool) []))"

text \<open>Model to rows and back, for each of the three sub-collections.\<close>

definition inputs_round_trip :: "tool_definition \<Rightarrow> py_error + input_field list" where
  "inputs_round_trip tool =
     (case tool_to_input_rows tool of Inl e \<Rightarrow> Inl e | Inr rows \<Rightarrow> input_rows_to_tool rows)"

definition scoring_round_trip :: "tool_definition \<Rightarrow> py_error + scoring_rule list" where
  "scoring_round_trip tool =
     (case tool_to_scoring_rows tool of
        Inl e \<Rightarrow> Inl e
      | Inr rows \<Rightarrow> scoring_rows_to_tool rows)"

definition rules_round_trip :: "tool_definition \<Rightarrow> py_error + recommendation_rule list" where
  "rules_round_trip tool = rule_rows_to_tool (tool_to_rule_rows tool)"

subsection \<open>Rows and the rules they produce\<close>

text \<open>A row lacks a key field when the field is absent, \<^verbatim>\<open>None\<close> or empty (false).\<close>

definition lacks :: "pyval option \<Rightarrow> bool" where
  "lacks field = (\<not> truthy (get_none field))"

definition transcoded_condition :: "condition \<Rightarrow> bool" where
  "transcoded_condition cond =
     (c_op cond = Some (PStr ''equals'') \<and>
      (case c_input_id cond of Some (PStr s) \<Rightarrow> s \<noteq> [] \<and> trimmed s | _ \<Rightarrow> False) \<and>
      (case c_value cond of Some v \<Rightarrow> v \<noteq> PStr '''' | None \<Rightarrow> False))"

definition transcoded_rule :: "recommendation_rule \<Rightarrow> bool" where
  "transcoded_rule rule =
     (case r_conditions rule of
        Some conds \<Rightarrow> length conds \<le> 3 \<and> list_all transcoded_condition conds
      | None \<Rightarrow> False)"

section \<open>Example tools\<close>

text \<open>
  The tool of the end-to-end examples: one input \<open>q\<close>, one scoring rule on it, one rule
  that matches \<open>Yes\<close>, and a fallback.
\<close>

definition yes_condition :: condition where
  "yes_condition =
     \<lparr>c_input_id = Some (PStr ''q''), c_op = Some (PStr ''equals''),
      c_value = Some (PStr ''Yes'')\<rparr>"

definition go_rule :: recommendation_rule where
  "go_rule =
     \<lparr>r_name = Some (PStr ''go''), r_level = Some (PStr ''success''),
      r_message = Some (PStr ''Go''), r_conditions = Some [yes_condition]\<rparr>"

definition q_scoring :: scoring_rule where
  "q_scoring =
     \<lparr>s_input_id = Some (PStr ''q''), s_favor_values = Some [PStr ''Yes''],
      s_against_values = Some [PStr ''No''], s_invert_favor = Some (PBool False)\<rparr>"

definition q_input :: input_field where
  "q_input =
     \<lparr>i_id = Some (PStr ''q''), i_label = Some (PStr ''Question?''),
      i_type = Some (PStr ''select''), i_options = Some [PStr ''Yes'', PStr ''No'']\<rparr>"

definition no_fallback :: outcome_message where
  "no_fallback = \<lparr>o_level = Some (PStr ''warning''), o_message = Some (PStr ''No'')\<rparr>"

definition example_tool :: tool_definition where
  "example_tool =
     \<lparr>t_name = Some (PStr ''Example''), t_description = Some (PStr ''''),
      t_inputs = Some [q_input], t_scoring_rules = Some [q_scoring],
      t_rules = Some [go_rule], t_fallback = Some no_fallback\<rparr>"

text \<open>A rule without conditions, and a more specific rule listed after \<open>go_rule\<close>.\<close>

definition empty_rule :: recommendation_rule where
  "empty_rule =
     \<lparr>r_name = Some (PStr ''empty''), r_level = Some (PStr ''error''),
      r_message = Some (PStr ''Never''), r_conditions = Some []\<rparr>"

definition specific_rule :: recommendation_rule where
  "specific_rule =
     \<lparr>r_name = Some (PStr ''specific''), r_level = Some (PStr ''info''),
      r_message = Some (PStr ''Both''),
      r_conditions = Some [yes_condition,
        \<lparr>c_input_id = Some (PStr ''n''), c_op = Some (PStr ''equals''),
         c_value = Some (PNum 1)\<rparr>]\<rparr>"

text \<open>
  A condition whose value is \<^verbatim>\<open>None\<close>, the row of the grid editor that produces it (an
  empty value cell), and a condition without a \<^verbatim>\<open>value\<close> key.
\<close>

definition none_rule :: recommendation_rule where
  "none_rule =
     \<lparr>r_name = Some (PStr ''none''), r_level = Some (PStr ''success''),
      r_message = Some (PStr ''Go''),
      r_conditions = Some [\<lparr>c_input_id = Some (PStr ''q''), c_op = Some (PStr ''equals''),
                            c_value = Some PNone\<rparr>]\<rparr>"

definition none_row :: rule_row where
  "none_row =
     \<lparr>rr_name = Some (PStr ''none''), rr_level = Some (PStr ''success''),
      rr_message = Some (PStr ''Go''),
      rr_input_id_1 = Some (PStr ''q''), rr_value_1 = Some PNone,
      rr_input_id_2 = Some (PStr ''''), rr_value_2 = Some (PStr ''''),
      rr_input_id_3 = Some (PStr ''''), rr_value_3 = Some (PStr '''')\<rparr>"

definition ghost_rule :: recommendation_rule where
  "ghost_rule =
     \<lparr>r_name = Some (PStr ''ghost''), r_level = Some (PStr ''error''),
      r_message = Some (PStr ''Ghost''),
      r_conditions = Some [\<lparr>c_input_id = Some (PStr ''ghost''), c_op = Some (PStr ''equals''),
                            c_value = None\<rparr>]\<rparr>"

definition dangling_rule :: recommendation_rule where
  "dangling_rule =
     \<lparr>r_name = Some (PStr ''dangling''), r_level = Some (PStr ''error''),
      r_message = Some (PStr ''Dangling''),
      r_conditions = Some [yes_condition,
        \<lparr>c_input_id = Some (PStr ''ghost''), c_op = Some (PStr ''equals''),
         c_value = Some (PStr ''Yes'')\<rparr>]\<rparr>"

text \<open>Scoring rules that list \<^verbatim>\<open>None\<close>, and one on an input id that no input has.\<close>

definition none_favor :: scoring_rule where
  "none_favor =
     \<lparr>s_input_id = Some (PStr ''q''), s_favor_values = Some [PNone],
      s_against_values = Some [PStr ''No''], s_invert_favor = Some (PBool False)\<rparr>"

definition ghost_against :: scoring_rule where
  "ghost_against =
     \<lparr>s_input_id = Some (PStr ''ghost''), s_favor_values = Some [PStr ''Yes''],
      s_against_values = Some [PNone], s_invert_favor = Some (PBool False)\<rparr>"

definition ghost_scoring :: scoring_rule where
  "ghost_scoring =
     \<lparr>s_input_id = Some (PStr ''ghost''), s_favor_values = Some [PStr ''Yes''],
      s_against_values = Some [PStr ''No''], s_invert_favor = Some (PBool False)\<rparr>"

definition both_scoring :: scoring_rule where
  "both_scoring =
     \<lparr>s_input_id = Some (PStr ''q''), s_favor_values = Some [PStr ''Yes''],
      s_against_values = Some [PStr ''Yes''], s_invert_favor = Some (PBool True)\<rparr>"

definition blank_scoring :: scoring_rule where
  "blank_scoring =
     \<lparr>s_input_id = Some (PStr ''''), s_favor_values = Some [PNone, PStr ''Yes''],
      s_against_values = Some [PStr ''No''], s_invert_favor = Some (PBool False)\<rparr>"

text \<open>An input whose id ends in a space.\<close>

definition spaced_input :: input_field where
  "spaced_input =
     \<lparr>i_id = Some (PStr ''q ''), i_label = Some (PStr ''Question?''),
      i_type = Some (PStr ''select''), i_options = Some [PStr ''Yes'', PStr ''No'']\<rparr>"

text \<open>Rows of the grid editor: with and without their key field.\<close>

definition q_input_row :: input_row where
  "q_input_row =
     \<lparr>ir_id = Some (PStr '' q ''), ir_label = Some (PStr ''Question?''),
      ir_type = Some (PStr ''select''), ir_options_csv = Some (CsvStr ''Yes,, No'')\<rparr>"

definition blank_input_row :: input_row where
  "blank_input_row =
     \<lparr>ir_id = Some PNone, ir_label = Some PNone, ir_type = Some PNone,
      ir_options_csv = Some CsvNone\<rparr>"

definition q_scoring_row :: scoring_row where
  "q_scoring_row =
     \<lparr>sr_input_id = Some (PStr ''q''), sr_favor_values_csv = Some (CsvStr ''Yes''),
      sr_against_values_csv = Some (CsvStr ''No''), sr_invert_favor = Some (PBool False)\<rparr>"

definition blank_scoring_row :: scoring_row where
  "blank_scoring_row =
     \<lparr>sr_input_id = Some (PStr ''''), sr_favor_values_csv = Some CsvNone,
      sr_against_values_csv = Some CsvNone, sr_invert_favor = Some PNone\<rparr>"

definition go_row :: rule_row where
  "go_row =
     \<lparr>rr_name = Some (PStr ''go''), rr_level = Some (PStr ''success''),
      rr_message = Some (PStr ''Go''),
      rr_input_id_1 = Some (PStr '' q ''), rr_value_1 = Some (PStr ''Yes''),
      rr_input_id_2 = Some (PStr ''n''), rr_value_2 = Some (PStr ''''),
      rr_input_id_3 = Some (PStr '' ''), rr_value_3 = Some (PStr ''x'')\<rparr>"

definition blank_rule_row :: rule_row where
  "blank_rule_row =
     \<lparr>rr_name = None, rr_level = Some PNone, rr_message = Some PNone,
      rr_input_id_1 = Some PNone, rr_value_1 = Some PNone,
      rr_input_id_2 = Some PNone, rr_value_2 = Some PNone,
      rr_input_id_3 = Some PNone, rr_value_3 = Some PNone\<rparr>"

section \<open>Lemmas: the engine\<close>

lemma py_eq_PNone: "py_eq PNone e = (e = PNone)"
  by (cases e) (simp_all add: py_eq_def)

lemma py_eq_empty_str: "py_eq v (PStr '''') = (v = PStr '''')"
  by (cases v) (simp_all add: py_eq_def)

lemma values_get_no_key: "\<not> is_key vals k \<Longrightarrow> values_get vals k = PNone"
  by (cases k) (simp_all add: get_none_def get_or_def)

lemma conditions_match_all:
  "conditions_match conds vals = list_all (\<lambda>cond. cond_holds cond vals) conds"
  by (induction conds) (simp_all add: cond_holds_def Let_def values_get_no_key py_eq_PNone)

lemma code_matches_eq: "code_matches rule vals = rule_matches rule vals"
  by (simp add: code_matches_def rule_matches_def conditions_match_all)

lemma rules_loop_find:
  "rules_loop rules vals =
     map_option rule_outcome (find (\<lambda>rule. code_matches rule vals) rules)"
  by (induction rules) (simp_all add: Let_def code_matches_def rule_outcome_def)

lemma evaluate_rules_fallback:
  "rules_loop (get_or (t_rules tool) []) vals = None \<Longrightarrow>
   evaluate_rules tool vals = fallback_outcome tool"
  by (simp add: evaluate_rules_def fallback_outcome_def default_fallback_def get_or_def Let_def
           split: option.splits)

lemma evaluate_rules_found:
  "rules_loop (get_or (t_rules tool) []) vals = Some res \<Longrightarrow> evaluate_rules tool vals = res"
  by (simp add: evaluate_rules_def)

lemma evaluate_rules_cong:
  "rules_loop (get_or (t_rules tool) []) vals = rules_loop (get_or (t_rules tool') []) vals \<Longrightarrow>
   t_fallback tool = t_fallback tool' \<Longrightarrow>
   evaluate_rules tool vals = evaluate_rules tool' vals"
  by (simp add: evaluate_rules_def split: option.splits)

lemma rules_loop_skip:
  "\<not> code_matches rule vals \<Longrightarrow>
   rules_loop (pre @ rule # post) vals = rules_loop (pre @ post) vals"
  by (induction pre) (auto simp: Let_def code_matches_def)

lemma evaluate_rules_skip:
  assumes "\<not> code_matches rule vals"
  shows "evaluate_rules (tool\<lparr>t_rules := Some (pre @ rule # post)\<rparr>) vals =
         evaluate_rules (tool\<lparr>t_rules := Some (pre @ post)\<rparr>) vals"
  by (rule evaluate_rules_cong) (simp_all add: get_or_def rules_loop_skip [OF assms])

lemma find_first:
  "\<forall>x \<in> set pre. \<not> P x \<Longrightarrow> P y \<Longrightarrow> find P (pre @ y # post) = Some y"
  by (induction pre) simp_all

lemma evaluate_rules_find:
  "evaluate_rules tool vals = first_match rule_matches tool vals"
  by (cases "find (\<lambda>rule. rule_matches rule vals) (get_or (t_rules tool) [])")
     (simp_all add: first_match_def evaluate_rules_fallback evaluate_rules_found
        rules_loop_find code_matches_eq)

lemma rule_score_polarity:
  "rule_score rule vals (get_none (s_input_id rule)) = polarity rule vals"
  by (simp add: rule_score_def polarity_def raw_polarity_def Let_def)

lemma scores_loop_count:
  "scores_loop rules vals (p, m) =
     (p + count_polarity polarity 1 rules vals, m + count_polarity polarity (- 1) rules vals)"
  by (induction rules arbitrary: p m)
     (simp_all add: Let_def count_polarity_def scored_def rule_score_polarity)

lemma count_polarity_bounds:
  "0 \<le> count_polarity pol_of pol rules vals \<and>
   count_polarity pol_of pol rules vals \<le> int (length rules)"
  by (simp add: count_polarity_def)

lemma count_polarity_sum:
  "count_polarity pol_of 1 rules vals + count_polarity pol_of (- 1) rules vals
     \<le> int (length rules)"
  by (induction rules) (simp_all add: count_polarity_def)

lemma count_polarity_skip:
  "\<not> scored rule \<or> (pol_of rule vals \<noteq> pol) \<Longrightarrow>
   count_polarity pol_of pol (pre @ rule # post) vals =
   count_polarity pol_of pol (pre @ post) vals"
  by (auto simp: count_polarity_def)

lemma compute_scores_skip:
  assumes "\<not> scored rule \<or> polarity rule vals = 0"
  shows "compute_scores (tool\<lparr>t_scoring_rules := Some (pre @ rule # post)\<rparr>) vals =
         compute_scores (tool\<lparr>t_scoring_rules := Some (pre @ post)\<rparr>) vals"
proof -
  from assms have "\<not> scored rule \<or> polarity rule vals \<noteq> 1"
    and "\<not> scored rule \<or> polarity rule vals \<noteq> - 1"
    by auto
  then show ?thesis
    by (simp add: compute_scores_def scores_loop_count get_or_def count_polarity_skip)
qed

lemma missing_key_polarity:
  assumes "\<not> is_key vals (get_none (s_input_id rule))"
    and "\<not> py_in PNone (get_or (s_favor_values rule) [])"
    and "\<not> py_in PNone (get_or (s_against_values rule) [])"
  shows "polarity rule vals = 0"
  using assms by (simp add: polarity_def raw_polarity_def values_get_no_key)

section \<open>Lemmas: strings\<close>

lemma space_isspace: "py_isspace CHR '' ''"
  by (simp add: py_isspace_def)

lemma strip_empty: "strip [] = []"
  by (simp add: strip_def)

lemma strip_trimmed: "trimmed (strip s)"
proof (cases "strip s = []")
  case True
  then show ?thesis by (simp add: trimmed_def)
next
  case False
  let ?a = "dropWhile py_isspace s"
  let ?b = "dropWhile py_isspace (rev ?a)"
  from False have b: "?b \<noteq> []" by (simp add: strip_def)
  have a: "?a \<noteq> []"
  proof
    assume e: "?a = []"
    have "?b = []" unfolding e by simp
    with b show False by blast
  qed
  have l: "\<not> py_isspace (last (strip s))"
    using hd_dropWhile [OF b] b by (simp add: strip_def last_rev)
  have "hd (rev ?b) = hd ?a"
  proof -
    have "rev ?a = takeWhile py_isspace (rev ?a) @ ?b" by simp
    then have "?a = rev ?b @ rev (takeWhile py_isspace (rev ?a))"
      by (metis rev_append rev_rev_ident)
    then show ?thesis using b by (metis hd_append2 rev_is_Nil_conv)
  qed
  then have h: "\<not> py_isspace (hd (strip s))"
    using hd_dropWhile [OF a] by (simp add: strip_def)
  from h l show ?thesis by (simp add: trimmed_def)
qed

lemma trimmed_strip: "trimmed s \<Longrightarrow> strip s = s"
proof (cases "s = []")
  case True
  then show ?thesis by (simp add: strip_def)
next
  case False
  assume "trimmed s"
  with False have h: "\<not> py_isspace (hd s)" and l: "\<not> py_isspace (last s)"
    by (simp_all add: trimmed_def)
  from h False have 1: "dropWhile py_isspace s = s"
    by (simp add: dropWhile_eq_self_iff)
  from l False have 2: "dropWhile py_isspace (rev s) = rev s"
    by (simp add: dropWhile_eq_self_iff hd_rev)
  show ?thesis by (simp add: strip_def 1 2)
qed

lemma strip_space_Cons: "strip (CHR '' '' # s) = strip s"
  by (simp add: strip_def space_isspace)

lemma split_comma_safe: "csv_safe s \<Longrightarrow> split_comma s = [s]"
  by (induction s) (auto simp: csv_safe_def)

lemma split_comma_append:
  "csv_safe s \<Longrightarrow> split_comma (s @ CHR '','' # rest) = s # split_comma rest"
  by (induction s) (auto simp: csv_safe_def)

lemma split_join:
  "list_all csv_safe (x # xs) \<Longrightarrow>
   split_comma (join_comma (x # xs)) = x # map ((#) CHR '' '') xs"
proof (induction xs arbitrary: x)
  case Nil
  then show ?case by (simp add: split_comma_safe)
next
  case (Cons y ys)
  then show ?case by (simp add: split_comma_append)
qed

lemma normalize_join:
  assumes "list_all option_ok xs"
  shows "normalize_options (CsvStr (join_comma xs)) = xs"
proof (cases xs)
  case Nil
  then show ?thesis by simp
next
  case (Cons x rest)
  from assms Cons have safe: "list_all csv_safe (x # rest)"
    by (simp add: option_ok_def list_all_iff)
  from assms Cons have x: "x \<noteq> []" "strip x = x"
    by (simp_all add: option_ok_def trimmed_strip)
  from assms Cons have rest: "\<forall>y \<in> set rest. y \<noteq> [] \<and> strip y = y"
    by (simp add: option_ok_def list_all_iff trimmed_strip)
  have ne: "join_comma (x # rest) \<noteq> []"
    using x by (cases rest) simp_all
  have f: "filter (\<lambda>opt. strip opt \<noteq> []) (map ((#) CHR '' '') rest) = map ((#) CHR '' '') rest"
    using rest by (simp add: strip_space_Cons filter_id_conv)
  have m: "map strip (map ((#) CHR '' '') rest) = rest"
    using rest by (simp add: strip_space_Cons map_idI)
  show ?thesis
    using ne x f m by (simp add: Cons split_join [OF safe] del: join_comma.simps)
qed

section \<open>Lemmas: the transcoder\<close>

lemma map_collect:
  "(\<And>x. x \<in> set xs \<Longrightarrow> \<exists>row. f x = Inr row \<and> g row = Inr (Some x)) \<Longrightarrow>
   \<exists>rows. map_rows f xs = Inr rows \<and> collect_rows g rows = Inr xs"
proof (induction xs)
  case Nil
  then show ?case by simp
next
  case (Cons x xs)
  from Cons.prems [of x] obtain row where row: "f x = Inr row" "g row = Inr (Some x)"
    by auto
  from Cons.IH Cons.prems obtain rows where rows: "map_rows f xs = Inr rows" "collect_rows g rows = Inr xs"
    by auto
  from row rows show ?case by simp
qed

lemma clean_options_join:
  assumes "clean_options (Some xs)"
  shows "\<exists>ss. py_join xs = Inr (join_comma ss) \<and> list_all option_ok ss \<and> map PStr ss = xs"
proof -
  from assms have "\<exists>ss. str_items xs = Inr ss \<and> list_all option_ok ss \<and> map PStr ss = xs"
  proof (induction xs)
    case Nil
    then show ?case by simp
  next
    case (Cons v vs)
    then obtain s where v: "v = PStr s" "option_ok s"
      by (cases v) (simp_all add: clean_options_def clean_option_def)
    from Cons obtain ss where "str_items vs = Inr ss" "list_all option_ok ss" "map PStr ss = vs"
      by (auto simp: clean_options_def)
    with v show ?case by simp
  qed
  then show ?thesis by (auto simp: py_join_def)
qed

lemma options_round_trip:
  assumes "clean_options (Some xs)"
  shows "\<exists>csv. py_join xs = Inr csv \<and> map PStr (normalize_options (CsvStr csv)) = xs"
  using clean_options_join [OF assms] by (auto simp: normalize_join simp del: normalize_options.simps)

lemma clean_idD: "clean_id field \<Longrightarrow> \<exists>s. field = Some (PStr s) \<and> s \<noteq> [] \<and> strip s = s"
  by (auto simp: clean_id_def trimmed_strip split: option.splits pyval.splits)

lemma clean_textD: "clean_text field \<Longrightarrow> \<exists>s. field = Some (PStr s) \<and> strip s = s"
  by (auto simp: clean_text_def trimmed_strip split: option.splits pyval.splits)

lemma input_item_round_trip:
  assumes "input_ok item"
  shows "\<exists>row. input_row_of item = Inr row \<and> input_of_row row = Inr (Some item)"
proof -
  from assms obtain ident where ident: "i_id item = Some (PStr ident)" "ident \<noteq> []" "strip ident = ident"
    using clean_idD by (auto simp: input_ok_def)
  from assms obtain label where label: "i_label item = Some (PStr label)" "strip label = label"
    using clean_textD by (auto simp: input_ok_def)
  from assms obtain ty where ty: "i_type item = Some ty"
    by (auto simp: input_ok_def)
  from assms obtain opts where opts: "i_options item = Some opts" "clean_options (Some opts)"
    by (auto simp: input_ok_def clean_options_def split: option.splits)
  from options_round_trip [OF opts(2)] obtain csv where
    csv: "py_join opts = Inr csv" "map PStr (normalize_options (CsvStr csv)) = opts"
    by auto
  show ?thesis
    using ident label ty opts(1) csv
    by (cases item)
       (simp add: input_row_of_def input_of_row_def get_or_def get_none_def
             del: normalize_options.simps)
qed

lemma scoring_item_round_trip:
  assumes "scoring_ok item"
  shows "\<exists>row. scoring_row_of item = Inr row \<and> scoring_of_row row = Inr (Some item)"
proof -
  from assms obtain ident where ident: "s_input_id item = Some (PStr ident)" "ident \<noteq> []" "strip ident = ident"
    using clean_idD by (auto simp: scoring_ok_def)
  from assms obtain b where b: "s_invert_favor item = Some (PBool b)"
    by (auto simp: scoring_ok_def split: option.splits pyval.splits)
  from assms obtain fav where fav: "s_favor_values item = Some fav" "clean_options (Some fav)"
    by (auto simp: scoring_ok_def clean_options_def split: option.splits)
  from assms obtain ag where ag: "s_against_values item = Some ag" "clean_options (Some ag)"
    by (auto simp: scoring_ok_def clean_options_def split: option.splits)
  from options_round_trip [OF fav(2)] obtain fcsv where
    fcsv: "py_join fav = Inr fcsv" "map PStr (normalize_options (CsvStr fcsv)) = fav"
    by auto
  from options_round_trip [OF ag(2)] obtain acsv where
    acsv: "py_join ag = Inr acsv" "map PStr (normalize_options (CsvStr acsv)) = ag"
    by auto
  show ?thesis
    using ident b fav(1) ag(1) fcsv acsv
    by (cases item)
       (simp add: scoring_row_of_def scoring_of_row_def get_or_def get_none_def
             del: normalize_options.simps)
qed

lemma condition_okD:
  assumes "condition_ok cond"
  shows "\<exists>s v. cond = \<lparr>c_input_id = Some (PStr s), c_op = Some (PStr ''equals''), c_value = Some v\<rparr>
           \<and> s \<noteq> [] \<and> strip s = s \<and> v \<noteq> PStr ''''"
proof -
  from assms obtain s where s: "c_input_id cond = Some (PStr s)" "s \<noteq> []" "strip s = s"
    using clean_idD by (auto simp: condition_ok_def)
  from assms obtain v where v: "c_value cond = Some v" "v \<noteq> PStr ''''"
    by (auto simp: condition_ok_def split: option.splits)
  from assms have "c_op cond = Some (PStr ''equals'')"
    by (simp add: condition_ok_def)
  with s v show ?thesis by (cases cond) simp
qed

lemma row_conditions_round_trip:
  assumes "length conds \<le> 3" and "list_all condition_ok conds"
  shows "row_conditions
           \<lparr>rr_name = n, rr_level = l, rr_message = m,
            rr_input_id_1 = Some (id_cell conds 0), rr_value_1 = Some (value_cell conds 0),
            rr_input_id_2 = Some (id_cell conds 1), rr_value_2 = Some (value_cell conds 1),
            rr_input_id_3 = Some (id_cell conds 2), rr_value_3 = Some (value_cell conds 2)\<rparr>
           [0, 1, 2] [] = Inr conds"
proof -
  consider "conds = []" | a where "conds = [a]" | a b where "conds = [a, b]"
    | a b c where "conds = [a, b, c]"
  proof (cases conds)
    case Nil
    then show ?thesis using that by simp
  next
    case A: (Cons a as)
    show ?thesis
    proof (cases as)
      case Nil
      with A show ?thesis using that by simp
    next
      case B: (Cons b bs)
      show ?thesis
      proof (cases bs)
        case Nil
        with A B show ?thesis using that by simp
      next
        case C: (Cons c cs)
        with A B assms(1) have "cs = []" by simp
        with A B C show ?thesis using that by simp
      qed
    qed
  qed
  then show ?thesis
  proof cases
    case 1
    then show ?thesis
      by (simp add: slot_input_id_def slot_value_def id_cell_def value_cell_def get_or_def
            strip_empty)
  next
    case 2
    with assms(2) condition_okD [of a] show ?thesis
      by (auto simp: slot_input_id_def slot_value_def id_cell_def value_cell_def get_or_def
            strip_empty py_eq_empty_str)
  next
    case 3
    with assms(2) condition_okD [of a] condition_okD [of b] show ?thesis
      by (auto simp: slot_input_id_def slot_value_def id_cell_def value_cell_def get_or_def
            strip_empty py_eq_empty_str)
  next
    case 4
    with assms(2) condition_okD [of a] condition_okD [of b] condition_okD [of c] show ?thesis
      by (auto simp: slot_input_id_def slot_value_def id_cell_def value_cell_def get_or_def
            strip_empty py_eq_empty_str)
  qed
qed

lemma rule_item_round_trip:
  assumes "rule_ok rule"
  shows "rule_of_row (rule_row_of rule) = Inr (Some rule)"
proof -
  from assms obtain name where name: "r_name rule = Some name" "truthy name"
    by (auto simp: rule_ok_def split: option.splits)
  from assms obtain level message where lm: "r_level rule = Some level" "r_message rule = Some message"
    by (auto simp: rule_ok_def)
  from assms obtain conds where conds: "r_conditions rule = Some conds" "length conds \<le> 3"
      "list_all condition_ok conds"
    by (auto simp: rule_ok_def split: option.splits)
  show ?thesis
    using name lm conds(1) row_conditions_round_trip [OF conds(2,3)]
    by (cases rule)
       (simp add: rule_of_row_def rule_row_of_def get_or_def get_none_def Let_def
             del: row_conditions.simps)
qed

lemma collect_map:
  "(\<And>x. x \<in> set xs \<Longrightarrow> g (f x) = Inr (Some x)) \<Longrightarrow> collect_rows g (map f xs) = Inr xs"
  by (induction xs) simp_all

lemma collect_rows_skip:
  "f x = Inr None \<Longrightarrow> collect_rows f (pre @ x # post) = collect_rows f (pre @ post)"
  by (induction pre) (simp_all split: sum.splits option.splits)

lemma collect_rows_length:
  assumes "\<And>x. (f x = Inr None) = P x"
  shows "collect_rows f xs = Inr ys \<Longrightarrow> length ys = length (filter (\<lambda>x. \<not> P x) xs)"
proof (induction xs arbitrary: ys)
  case Nil
  then show ?case by simp
next
  case (Cons x xs)
  show ?case
  proof (cases "f x")
    case (Inl e)
    with Cons.prems show ?thesis by simp
  next
    case (Inr res)
    show ?thesis
    proof (cases res)
      case None
      with Inr Cons assms [of x] show ?thesis by simp
    next
      case (Some y)
      with Inr assms [of x] have p: "\<not> P x" by auto
      from Some Inr Cons.prems obtain ys' where ys': "collect_rows f xs = Inr ys'" "ys = y # ys'"
        by (auto split: sum.splits)
      from Cons.IH [OF ys'(1)] ys'(2) p show ?thesis by simp
    qed
  qed
qed

lemma collect_rows_set:
  "collect_rows f xs = Inr ys \<Longrightarrow> y \<in> set ys \<Longrightarrow> \<exists>x \<in> set xs. f x = Inr (Some y)"
proof (induction xs arbitrary: ys)
  case Nil
  then show ?case by simp
next
  case (Cons x xs)
  then show ?case
    by (fastforce split: sum.splits option.splits)
qed

lemma py_strip_Inr: "py_strip v = Inr w \<Longrightarrow> \<exists>s. v = PStr s \<and> w = PStr (strip s)"
  by (cases v) auto

lemma input_of_row_None: "(input_of_row row = Inr None) = lacks (ir_id row)"
  by (auto simp: input_of_row_def lacks_def split: sum.splits)

lemma scoring_of_row_None: "(scoring_of_row row = Inr None) = lacks (sr_input_id row)"
  by (auto simp: scoring_of_row_def lacks_def split: sum.splits)

lemma rule_of_row_None: "(rule_of_row row = Inr None) = lacks (rr_name row)"
  by (auto simp: rule_of_row_def lacks_def split: sum.splits)

lemma row_conditions_transcoded:
  "row_conditions row idxs acc = Inr conds \<Longrightarrow> list_all transcoded_condition acc \<Longrightarrow>
   list_all transcoded_condition conds \<and> length conds \<le> length acc + length idxs"
proof (induction idxs arbitrary: acc)
  case Nil
  then show ?case by simp
next
  case (Cons idx idxs)
  from Cons.prems(1) obtain input_id where
    s: "py_strip (get_or (slot_input_id row idx) (PStr '''')) = Inr input_id"
    by (auto split: sum.splits)
  let ?val = "get_or (slot_value row idx) (PStr '''')"
  let ?new = "\<lparr>c_input_id = Some input_id, c_op = Some (PStr ''equals''), c_value = Some ?val\<rparr>"
  show ?case
  proof (cases "truthy input_id \<and> \<not> py_eq ?val (PStr '''')")
    case True
    from py_strip_Inr [OF s] obtain raw where raw: "input_id = PStr (strip raw)" by auto
    with True have "transcoded_condition ?new"
      by (simp add: transcoded_condition_def strip_trimmed py_eq_empty_str)
    with Cons.prems(2) have acc: "list_all transcoded_condition (acc @ [?new])" by simp
    from Cons.prems(1) s True have "row_conditions row idxs (acc @ [?new]) = Inr conds"
      by (simp add: Let_def)
    from Cons.IH [OF this acc] show ?thesis by simp
  next
    case False
    with Cons.prems(1) s have "row_conditions row idxs acc = Inr conds"
      by (auto simp: Let_def)
    from Cons.IH [OF this Cons.prems(2)] show ?thesis by simp
  qed
qed

lemma rule_of_row_transcoded:
  assumes "rule_of_row row = Inr (Some rule)"
  shows "transcoded_rule rule"
proof -
  from assms obtain conds where c: "row_conditions row [0, 1, 2] [] = Inr conds"
    and r: "r_conditions rule = Some conds"
    by (auto simp: rule_of_row_def split: if_splits sum.splits)
  from row_conditions_transcoded [OF c] r show ?thesis
    by (simp add: transcoded_rule_def)
qed

section \<open>The claims\<close>

subsection \<open>C1: the first matching rule wins\<close>

text \<open>
  As stated, C1 takes a missing key for a non-match. At a condition whose value is
  \<^verbatim>\<open>None\<close> and an empty \<^verbatim>\<open>values\<close>, \<^verbatim>\<open>values.get("q")\<close> is \<^verbatim>\<open>None\<close>, which equals the
  expected \<^verbatim>\<open>None\<close>: \<^verbatim>\<open>evaluate_rules\<close> returns the rule, where the claim gives the
  fallback.
\<close>

theorem missing_key_matches_none:
  "evaluate_rules (example_tool\<lparr>t_rules := Some [none_rule]\<rparr>) Map.empty
     = (PStr ''success'', PStr ''Go'') \<and>
   first_match claimed_rule_matches (example_tool\<lparr>t_rules := Some [none_rule]\<rparr>) Map.empty
     = (PStr ''warning'', PStr ''No'')"
  by (simp add: evaluate_rules_def first_match_def claimed_rule_matches_def
        claimed_cond_holds_def example_tool_def none_rule_def no_fallback_def
        fallback_outcome_def get_or_def get_none_def py_eq_def)

text \<open>Such a condition comes out of \<^verbatim>\<open>rule_rows_to_tool\<close> for a row with an empty value cell.\<close>

lemma none_rule_from_row: "rule_rows_to_tool [none_row] = Inr [none_rule]"
  by (simp add: rule_rows_to_tool_def rule_of_row_def none_row_def none_rule_def
        slot_input_id_def slot_value_def get_or_def get_none_def strip_def py_isspace_def
        py_eq_def)

text \<open>
  C1 (amended): for every tool and values mapping, \<^verbatim>\<open>evaluate_rules(tool, values)\<close> returns
  the (level, message) of the first rule in \<^verbatim>\<open>tool.rules\<close>, in sequence order, that has a
  non-empty condition list all of whose conditions hold, and the fallback when there is
  none. A condition holds iff \<^verbatim>\<open>values.get(cond.input_id)\<close> equals \<^verbatim>\<open>cond.value\<close> under
  Python's \<^verbatim>\<open>==\<close>: a missing key reads as \<^verbatim>\<open>None\<close>, so it is a non-match unless the
  expected value is \<^verbatim>\<open>None\<close> too. A number never equals a string. When two rules are
  both satisfied and no rule before the earlier one is, the earlier one is returned,
  whatever the number of their conditions.
\<close>

theorem evaluate_rules_first_match:
  "evaluate_rules tool vals = first_match rule_matches tool vals \<and>
   \<not> py_eq (PNum n) (PStr s) \<and> \<not> py_eq (PStr s) (PNum n) \<and>
   (t_rules tool = Some (pre @ r1 # mid @ r2 # post) \<and>
    (\<forall>r \<in> set pre. \<not> rule_matches r vals) \<and>
    rule_matches r1 vals \<and> rule_matches r2 vals
    \<longrightarrow> evaluate_rules tool vals = rule_outcome r1)"
proof -
  have a: "evaluate_rules tool vals = first_match rule_matches tool vals"
    by (rule evaluate_rules_find)
  have b: "\<not> py_eq (PNum n) (PStr s) \<and> \<not> py_eq (PStr s) (PNum n)"
    by (simp add: py_eq_def)
  have c: "evaluate_rules tool vals = rule_outcome r1"
    if "t_rules tool = Some (pre @ r1 # mid @ r2 # post)"
      and "\<forall>r \<in> set pre. \<not> rule_matches r vals" and "rule_matches r1 vals"
    using that a by (simp add: first_match_def get_or_def find_first)
  from a b c show ?thesis by blast
qed

theorem evaluate_rules_first_match_witness:
  "t_rules (example_tool\<lparr>t_rules := Some ([empty_rule] @ go_rule # [] @ specific_rule # [])\<rparr>)
     = Some ([empty_rule] @ go_rule # [] @ specific_rule # []) \<and>
   \<not> rule_matches empty_rule [''q'' \<mapsto> PStr ''Yes'', ''n'' \<mapsto> PBool True] \<and>
   rule_matches go_rule [''q'' \<mapsto> PStr ''Yes'', ''n'' \<mapsto> PBool True] \<and>
   rule_matches specific_rule [''q'' \<mapsto> PStr ''Yes'', ''n'' \<mapsto> PBool True] \<and>
   evaluate_rules
     (example_tool\<lparr>t_rules := Some ([empty_rule] @ go_rule # [] @ specific_rule # [])\<rparr>)
     [''q'' \<mapsto> PStr ''Yes'', ''n'' \<mapsto> PBool True] = (PStr ''success'', PStr ''Go'')"
proof -
  let ?tool = "example_tool\<lparr>t_rules := Some ([empty_rule] @ go_rule # [] @ specific_rule # [])\<rparr>"
  let ?vals = "[''q'' \<mapsto> PStr ''Yes'', ''n'' \<mapsto> PBool True]"
  have h: "t_rules ?tool = Some ([empty_rule] @ go_rule # [] @ specific_rule # []) \<and>
           \<not> rule_matches empty_rule ?vals \<and>
           rule_matches go_rule ?vals \<and> rule_matches specific_rule ?vals"
    by (simp add: rule_matches_def cond_holds_def empty_rule_def go_rule_def
          specific_rule_def yes_condition_def get_or_def get_none_def py_eq_def)
  have o: "rule_outcome go_rule = (PStr ''success'', PStr ''Go'')"
    by (simp add: rule_outcome_def go_rule_def get_or_def)
  have "evaluate_rules ?tool ?vals = rule_outcome go_rule"
    by (rule evaluate_rules_first_match
          [of ?tool ?vals 1 "''1''" "[empty_rule]" go_rule "[]" specific_rule "[]",
           THEN conjunct2, THEN conjunct2, THEN conjunct2, THEN mp])
       (use h in simp)
  with h o show ?thesis by simp
qed

subsection \<open>C2: classification of a scoring rule\<close>

text \<open>
  As stated, C2 gives a missing key the polarity 0. At a rule whose \<^verbatim>\<open>favor_values\<close> list
  \<^verbatim>\<open>None\<close> and an empty \<^verbatim>\<open>values\<close>, \<^verbatim>\<open>values.get("q")\<close> is \<^verbatim>\<open>None\<close>, a member of
  \<^verbatim>\<open>favor_values\<close>: \<^verbatim>\<open>compute_scores\<close> returns (1, 0), where the claim gives (0, 0).
\<close>

theorem missing_key_scores_none:
  "compute_scores (example_tool\<lparr>t_scoring_rules := Some [none_favor]\<rparr>) Map.empty = (1, 0) \<and>
   (count_polarity claimed_polarity 1 [none_favor] Map.empty,
    count_polarity claimed_polarity (- 1) [none_favor] Map.empty) = (0, 0)"
  by (simp add: compute_scores_def rule_score_def count_polarity_def claimed_polarity_def
        scored_def none_favor_def py_in_def get_or_def get_none_def py_eq_def)

text \<open>
  C2 (amended): for every scoring rule with a non-empty \<^verbatim>\<open>input_id\<close> and every values
  mapping, \<^verbatim>\<open>compute_scores\<close> classifies \<^verbatim>\<open>value = values.get(input_id)\<close>, which is \<^verbatim>\<open>None\<close>
  when the key is missing, as raw polarity +1 if it is in \<^verbatim>\<open>favor_values\<close>, else -1 if it
  is in \<^verbatim>\<open>against_values\<close>, else 0; the favor test runs first, so a value in both lists
  gets the favor polarity; a missing key gives 0 when \<^verbatim>\<open>None\<close> is in neither list; with
  \<^verbatim>\<open>invert_favor\<close> a non-zero polarity is negated; \<^verbatim>\<open>favor_count\<close> is the number of rules
  of polarity +1 and \<^verbatim>\<open>against_count\<close> the number of rules of polarity -1, so a rule of
  polarity 0 changes neither counter.
\<close>

theorem compute_scores_polarity:
  "compute_scores tool vals =
     (count_polarity polarity 1 (get_or (t_scoring_rules tool) []) vals,
      count_polarity polarity (- 1) (get_or (t_scoring_rules tool) []) vals) \<and>
   (py_in v fav \<longrightarrow> raw_polarity v fav ag = 1) \<and>
   (\<not> is_key vals (get_none (s_input_id rule)) \<and>
    \<not> py_in PNone (get_or (s_favor_values rule) []) \<and>
    \<not> py_in PNone (get_or (s_against_values rule) []) \<longrightarrow> polarity rule vals = 0)"
  by (simp add: compute_scores_def scores_loop_count raw_polarity_def missing_key_polarity)

theorem compute_scores_polarity_witness:
  "compute_scores
     (example_tool\<lparr>t_scoring_rules := Some [q_scoring, both_scoring, ghost_scoring]\<rparr>)
     [''q'' \<mapsto> PStr ''Yes''] = (1, 1) \<and>
   py_in (PStr ''Yes'') [PStr ''Yes''] \<and>
   raw_polarity (PStr ''Yes'') [PStr ''Yes''] [PStr ''Yes''] = 1 \<and>
   \<not> is_key [''q'' \<mapsto> PStr ''Yes''] (get_none (s_input_id ghost_scoring)) \<and>
   \<not> py_in PNone (get_or (s_favor_values ghost_scoring) []) \<and>
   \<not> py_in PNone (get_or (s_against_values ghost_scoring) []) \<and>
   polarity ghost_scoring [''q'' \<mapsto> PStr ''Yes''] = 0"
  using compute_scores_polarity
    [of "example_tool\<lparr>t_scoring_rules := Some [q_scoring, both_scoring, ghost_scoring]\<rparr>"
        "[''q'' \<mapsto> PStr ''Yes'']" "PStr ''Yes''" "[PStr ''Yes'']" "[PStr ''Yes'']"
        ghost_scoring]
  by (simp add: count_polarity_def polarity_def raw_polarity_def scored_def q_scoring_def
        both_scoring_def ghost_scoring_def py_in_def get_or_def get_none_def py_eq_def)

subsection \<open>C3: the round trip through rows\<close>

text \<open>
  As stated, C3 asks for non-empty key fields and strings without commas. An input whose
  id is \<^verbatim>\<open>"q "\<close> meets that, and \<^verbatim>\<open>input_rows_to_tool\<close> strips the id to \<^verbatim>\<open>"q"\<close>.
\<close>

theorem round_trip_strips_id:
  "claimed_tool_ok (example_tool\<lparr>t_inputs := Some [spaced_input]\<rparr>) \<and>
   inputs_round_trip (example_tool\<lparr>t_inputs := Some [spaced_input]\<rparr>) = Inr [q_input] \<and>
   inputs_round_trip (example_tool\<lparr>t_inputs := Some [spaced_input]\<rparr>)
     \<noteq> Inr (get_or (t_inputs (example_tool\<lparr>t_inputs := Some [spaced_input]\<rparr>)) [])"
  by (simp add: claimed_tool_ok_def claimed_input_ok_def claimed_scoring_ok_def
        claimed_rule_ok_def claimed_condition_ok_def nonempty_safe_str_def safe_str_def
        safe_options_def safe_option_def csv_safe_def example_tool_def spaced_input_def
        q_input_def q_scoring_def go_rule_def yes_condition_def inputs_round_trip_def
        tool_to_input_rows_def input_row_of_def input_rows_to_tool_def input_of_row_def
        py_join_def get_or_def get_none_def strip_def py_isspace_def)

text \<open>
  C3 (amended): for every ToolDefinition in which every field of every input, scoring
  rule, rule and condition is present, each rule has a true name and at most 3 conditions,
  each condition has \<^verbatim>\<open>op\<close> equal to \<^verbatim>\<open>"equals"\<close> and a value other than the empty string,
  \<^verbatim>\<open>invert_favor\<close> is a boolean, every input id, scoring \<^verbatim>\<open>input_id\<close> and condition
  \<^verbatim>\<open>input_id\<close> is a non-empty string, every id and label has no leading or trailing
  whitespace, and every option, favor value and against value is a non-empty string
  without a comma and without leading or trailing whitespace, converting the model to
  flat rows and back reproduces the three sub-collections exactly, in the same order and
  with the conditions of each rule in slot order.
\<close>

theorem transcoder_round_trip:
  assumes "tool_ok tool"
  shows "inputs_round_trip tool = Inr (get_or (t_inputs tool) []) \<and>
         scoring_round_trip tool = Inr (get_or (t_scoring_rules tool) []) \<and>
         rules_round_trip tool = Inr (get_or (t_rules tool) [])"
proof -
  from assms have i: "\<And>x. x \<in> set (get_or (t_inputs tool) []) \<Longrightarrow> input_ok x"
    and s: "\<And>x. x \<in> set (get_or (t_scoring_rules tool) []) \<Longrightarrow> scoring_ok x"
    and r: "\<And>x. x \<in> set (get_or (t_rules tool) []) \<Longrightarrow> rule_ok x"
    by (simp_all add: tool_ok_def list_all_iff)
  have 1: "inputs_round_trip tool = Inr (get_or (t_inputs tool) [])"
    using map_collect [of "get_or (t_inputs tool) []" input_row_of input_of_row]
      input_item_round_trip i
    by (auto simp: inputs_round_trip_def tool_to_input_rows_def input_rows_to_tool_def)
  have 2: "scoring_round_trip tool = Inr (get_or (t_scoring_rules tool) [])"
    using map_collect [of "get_or (t_scoring_rules tool) []" scoring_row_of scoring_of_row]
      scoring_item_round_trip s
    by (auto simp: scoring_round_trip_def tool_to_scoring_rows_def scoring_rows_to_tool_def)
  have 3: "rules_round_trip tool = Inr (get_or (t_rules tool) [])"
    using collect_map [of "get_or (t_rules tool) []" rule_of_row rule_row_of]
      rule_item_round_trip r
    by (simp add: rules_round_trip_def tool_to_rule_rows_def rule_rows_to_tool_def)
  from 1 2 3 show ?thesis by simp
qed

theorem transcoder_round_trip_witness:
  "tool_ok example_tool \<and>
   inputs_round_trip example_tool = Inr [q_input] \<and>
   scoring_round_trip example_tool = Inr [q_scoring] \<and>
   rules_round_trip example_tool = Inr [go_rule]"
proof -
  have ok: "tool_ok example_tool"
    by (simp add: tool_ok_def input_ok_def scoring_ok_def rule_ok_def condition_ok_def
          clean_id_def clean_text_def clean_options_def clean_option_def option_ok_def
          csv_safe_def trimmed_def py_isspace_def example_tool_def q_input_def q_scoring_def
          go_rule_def yes_condition_def get_or_def)
  from transcoder_round_trip [OF ok] ok show ?thesis
    by (simp add: example_tool_def get_or_def)
qed

subsection \<open>C4: the fallback\<close>

text \<open>
  C4: for every tool and values mapping in which no rule matches (every rule has an empty
  condition list or fails the test of its conditions), \<^verbatim>\<open>evaluate_rules\<close> returns the
  (level, message) of \<^verbatim>\<open>tool.fallback\<close>; when the tool has no fallback it returns the
  default pair (\<^verbatim>\<open>"warning"\<close>, \<^verbatim>\<open>"No rules matched."\<close>).
\<close>

theorem evaluate_rules_no_match:
  assumes "\<forall>rule \<in> set (get_or (t_rules tool) []).
             get_or (r_conditions rule) [] = [] \<or>
             \<not> conditions_match (get_or (r_conditions rule) []) vals"
  shows "evaluate_rules tool vals = fallback_outcome tool \<and>
         (t_fallback tool = None \<longrightarrow>
            evaluate_rules tool vals = (PStr ''warning'', PStr ''No rules matched.''))"
proof -
  from assms have "find (\<lambda>rule. code_matches rule vals) (get_or (t_rules tool) []) = None"
    by (auto simp: find_None_iff code_matches_def)
  then have "rules_loop (get_or (t_rules tool) []) vals = None"
    by (simp add: rules_loop_find)
  then have "evaluate_rules tool vals = fallback_outcome tool"
    by (rule evaluate_rules_fallback)
  then show ?thesis by (simp add: fallback_outcome_def)
qed

theorem evaluate_rules_no_match_witness:
  "get_or (r_conditions empty_rule) [] = [] \<and>
   \<not> conditions_match (get_or (r_conditions go_rule) []) [''q'' \<mapsto> PStr ''No''] \<and>
   t_fallback (example_tool\<lparr>t_rules := Some [empty_rule, go_rule], t_fallback := None\<rparr>) = None \<and>
   evaluate_rules (example_tool\<lparr>t_rules := Some [empty_rule, go_rule], t_fallback := None\<rparr>)
     [''q'' \<mapsto> PStr ''No''] = (PStr ''warning'', PStr ''No rules matched.'')"
proof -
  let ?tool = "example_tool\<lparr>t_rules := Some [empty_rule, go_rule], t_fallback := None\<rparr>"
  have e: "get_or (r_conditions empty_rule) [] = []"
    by (simp add: empty_rule_def get_or_def)
  have g: "\<not> conditions_match (get_or (r_conditions go_rule) []) [''q'' \<mapsto> PStr ''No'']"
    by (simp add: go_rule_def yes_condition_def get_or_def get_none_def py_eq_def)
  from e g have h: "\<forall>rule \<in> set (get_or (t_rules ?tool) []).
             get_or (r_conditions rule) [] = [] \<or>
             \<not> conditions_match (get_or (r_conditions rule) []) [''q'' \<mapsto> PStr ''No'']"
    by (simp add: get_or_def)
  have "evaluate_rules ?tool [''q'' \<mapsto> PStr ''No'']
          = (PStr ''warning'', PStr ''No rules matched.'')"
    by (rule evaluate_rules_no_match [OF h, THEN conjunct2, THEN mp]) simp
  with e g show ?thesis by simp
qed

subsection \<open>C5: a rule without conditions\<close>

text \<open>
  C5: for every tool and values mapping, a recommendation rule whose condition list is
  empty is never the rule selected by \<^verbatim>\<open>evaluate_rules\<close>: wherever it stands in
  \<^verbatim>\<open>tool.rules\<close>, also in first place, the result is the one of the tool without it; and if
  it is the only rule, \<^verbatim>\<open>evaluate_rules\<close> returns the fallback.
\<close>

theorem empty_rule_never_selected:
  assumes "get_or (r_conditions rule) [] = []"
  shows "evaluate_rules (tool\<lparr>t_rules := Some (pre @ rule # post)\<rparr>) vals =
           evaluate_rules (tool\<lparr>t_rules := Some (pre @ post)\<rparr>) vals \<and>
         evaluate_rules (tool\<lparr>t_rules := Some (rule # post)\<rparr>) vals =
           evaluate_rules (tool\<lparr>t_rules := Some post\<rparr>) vals \<and>
         evaluate_rules (tool\<lparr>t_rules := Some [rule]\<rparr>) vals = fallback_outcome tool"
proof -
  from assms have n: "\<not> code_matches rule vals" by (simp add: code_matches_def)
  have 1: "evaluate_rules (tool\<lparr>t_rules := Some (pre @ rule # post)\<rparr>) vals =
           evaluate_rules (tool\<lparr>t_rules := Some (pre @ post)\<rparr>) vals" for pre
    by (rule evaluate_rules_skip [OF n])
  have 2: "evaluate_rules (tool\<lparr>t_rules := Some [rule]\<rparr>) vals = fallback_outcome tool"
    using assms evaluate_rules_fallback [of "tool\<lparr>t_rules := Some [rule]\<rparr>" vals]
    by (simp add: get_or_def fallback_outcome_def)
  from 1 [of pre] 1 [of "[]"] 2 show ?thesis by simp
qed

theorem empty_rule_never_selected_witness:
  "get_or (r_conditions empty_rule) [] = [] \<and>
   evaluate_rules (example_tool\<lparr>t_rules := Some (empty_rule # [go_rule])\<rparr>)
     [''q'' \<mapsto> PStr ''Yes''] = (PStr ''success'', PStr ''Go'') \<and>
   evaluate_rules (example_tool\<lparr>t_rules := Some [empty_rule]\<rparr>) [''q'' \<mapsto> PStr ''Yes'']
     = (PStr ''warning'', PStr ''No'')"
proof -
  have h: "get_or (r_conditions empty_rule) [] = []"
    by (simp add: empty_rule_def get_or_def)
  have e: "evaluate_rules (example_tool\<lparr>t_rules := Some [go_rule]\<rparr>) [''q'' \<mapsto> PStr ''Yes'']
             = (PStr ''success'', PStr ''Go'')"
    by (simp add: evaluate_rules_def go_rule_def yes_condition_def get_or_def get_none_def
          py_eq_def)
  have f: "fallback_outcome example_tool = (PStr ''warning'', PStr ''No'')"
    by (simp add: fallback_outcome_def example_tool_def no_fallback_def get_or_def)
  from empty_rule_never_selected
         [OF h, where tool = example_tool and pre = "[]" and post = "[go_rule]"
            and vals = "[''q'' \<mapsto> PStr ''Yes'']"] h e f
  show ?thesis by simp
qed

subsection \<open>C6: dangling references\<close>

text \<open>
  As stated, C6 makes every reference to an input id that is no key of \<^verbatim>\<open>values\<close> inert.
  With \<^verbatim>\<open>values = {"q": "Yes"}\<close>, a rule whose only condition is on \<^verbatim>\<open>"ghost"\<close> and has
  no \<^verbatim>\<open>value\<close> key matches (\<^verbatim>\<open>None == None\<close>), and a scoring rule on \<^verbatim>\<open>"ghost"\<close> whose
  \<^verbatim>\<open>against_values\<close> list \<^verbatim>\<open>None\<close> adds 1 to \<^verbatim>\<open>against_count\<close>.
\<close>

theorem dangling_reference_matches_none:
  "\<not> is_key [''q'' \<mapsto> PStr ''Yes''] (PStr ''ghost'') \<and>
   evaluate_rules (example_tool\<lparr>t_rules := Some [ghost_rule]\<rparr>) [''q'' \<mapsto> PStr ''Yes'']
     = (PStr ''error'', PStr ''Ghost'') \<and>
   fallback_outcome (example_tool\<lparr>t_rules := Some [ghost_rule]\<rparr>)
     = (PStr ''warning'', PStr ''No'') \<and>
   compute_scores (example_tool\<lparr>t_scoring_rules := Some [ghost_against]\<rparr>)
     [''q'' \<mapsto> PStr ''Yes''] = (0, 1)"
  by (simp add: evaluate_rules_def compute_scores_def rule_score_def fallback_outcome_def
        example_tool_def no_fallback_def ghost_rule_def ghost_against_def py_in_def
        get_or_def get_none_def py_eq_def)

text \<open>
  C6 (amended): for every tool and values mapping, a recommendation rule containing a
  condition whose \<^verbatim>\<open>input_id\<close> is not a key of \<^verbatim>\<open>values\<close> and whose expected value is not
  \<^verbatim>\<open>None\<close> never matches in \<^verbatim>\<open>evaluate_rules\<close> (the result is the one of the tool without
  the rule); a scoring rule whose \<^verbatim>\<open>input_id\<close> is not a key of \<^verbatim>\<open>values\<close> contributes to
  neither counter in \<^verbatim>\<open>compute_scores\<close> when \<^verbatim>\<open>None\<close> is in neither of its two lists; and
  a scoring rule whose \<^verbatim>\<open>input_id\<close> is absent, \<^verbatim>\<open>None\<close> or the empty string contributes to
  neither counter.
\<close>

theorem dangling_reference_inert:
  "(cond \<in> set (get_or (r_conditions rule) []) \<and>
    \<not> is_key vals (get_none (c_input_id cond)) \<and> get_none (c_value cond) \<noteq> PNone
    \<longrightarrow> evaluate_rules (tool\<lparr>t_rules := Some (pre @ rule # post)\<rparr>) vals =
          evaluate_rules (tool\<lparr>t_rules := Some (pre @ post)\<rparr>) vals) \<and>
   (\<not> is_key vals (get_none (s_input_id srule)) \<and>
    \<not> py_in PNone (get_or (s_favor_values srule) []) \<and>
    \<not> py_in PNone (get_or (s_against_values srule) [])
    \<longrightarrow> compute_scores (tool\<lparr>t_scoring_rules := Some (spre @ srule # spost)\<rparr>) vals =
          compute_scores (tool\<lparr>t_scoring_rules := Some (spre @ spost)\<rparr>) vals) \<and>
   (\<not> truthy (get_none (s_input_id blank))
    \<longrightarrow> compute_scores (tool\<lparr>t_scoring_rules := Some (spre @ blank # spost)\<rparr>) vals =
          compute_scores (tool\<lparr>t_scoring_rules := Some (spre @ spost)\<rparr>) vals)"
proof -
  have a: "evaluate_rules (tool\<lparr>t_rules := Some (pre @ rule # post)\<rparr>) vals =
           evaluate_rules (tool\<lparr>t_rules := Some (pre @ post)\<rparr>) vals"
    if c: "cond \<in> set (get_or (r_conditions rule) [])"
      and k: "\<not> is_key vals (get_none (c_input_id cond))"
      and v: "get_none (c_value cond) \<noteq> PNone"
  proof -
    from k v have "\<not> cond_holds cond vals" by (simp add: cond_holds_def)
    with c have "\<not> rule_matches rule vals" by (auto simp: rule_matches_def list_all_iff)
    then have "\<not> code_matches rule vals" by (simp add: code_matches_eq)
    then show ?thesis by (rule evaluate_rules_skip)
  qed
  have b: "compute_scores (tool\<lparr>t_scoring_rules := Some (spre @ srule # spost)\<rparr>) vals =
           compute_scores (tool\<lparr>t_scoring_rules := Some (spre @ spost)\<rparr>) vals"
    if "\<not> is_key vals (get_none (s_input_id srule))"
      and "\<not> py_in PNone (get_or (s_favor_values srule) [])"
      and "\<not> py_in PNone (get_or (s_against_values srule) [])"
    using missing_key_polarity [OF that] by (simp add: compute_scores_skip)
  have c: "compute_scores (tool\<lparr>t_scoring_rules := Some (spre @ blank # spost)\<rparr>) vals =
           compute_scores (tool\<lparr>t_scoring_rules := Some (spre @ spost)\<rparr>) vals"
    if "\<not> truthy (get_none (s_input_id blank))"
    using that by (simp add: compute_scores_skip scored_def)
  from a b c show ?thesis by blast
qed

theorem dangling_reference_inert_witness:
  "\<lparr>c_input_id = Some (PStr ''ghost''), c_op = Some (PStr ''equals''),
     c_value = Some (PStr ''Yes'')\<rparr> \<in> set (get_or (r_conditions dangling_rule) []) \<and>
   \<not> is_key [''q'' \<mapsto> PStr ''Yes''] (PStr ''ghost'') \<and>
   \<not> py_in PNone (get_or (s_favor_values ghost_scoring) []) \<and>
   \<not> py_in PNone (get_or (s_against_values ghost_scoring) []) \<and>
   \<not> truthy (get_none (s_input_id blank_scoring)) \<and>
   evaluate_rules (example_tool\<lparr>t_rules := Some ([] @ dangling_rule # [go_rule])\<rparr>)
     [''q'' \<mapsto> PStr ''Yes''] = (PStr ''success'', PStr ''Go'') \<and>
   compute_scores (example_tool\<lparr>t_scoring_rules := Some ([q_scoring] @ ghost_scoring # [])\<rparr>)
     [''q'' \<mapsto> PStr ''Yes''] = (1, 0) \<and>
   compute_scores (example_tool\<lparr>t_scoring_rules := Some ([q_scoring] @ blank_scoring # [])\<rparr>)
     [''q'' \<mapsto> PStr ''Yes''] = (1, 0)"
proof -
  have e: "evaluate_rules (example_tool\<lparr>t_rules := Some [go_rule]\<rparr>) [''q'' \<mapsto> PStr ''Yes'']
             = (PStr ''success'', PStr ''Go'')"
    by (simp add: evaluate_rules_def go_rule_def yes_condition_def get_or_def get_none_def
          py_eq_def)
  have s: "compute_scores (example_tool\<lparr>t_scoring_rules := Some [q_scoring]\<rparr>)
             [''q'' \<mapsto> PStr ''Yes''] = (1, 0)"
    by (simp add: compute_scores_def rule_score_def q_scoring_def py_in_def get_or_def
          get_none_def py_eq_def)
  from dangling_reference_inert
         [where cond = "\<lparr>c_input_id = Some (PStr ''ghost''), c_op = Some (PStr ''equals''),
                          c_value = Some (PStr ''Yes'')\<rparr>"
            and rule = dangling_rule and vals = "[''q'' \<mapsto> PStr ''Yes'']"
            and tool = example_tool and pre = "[]" and post = "[go_rule]"
            and srule = ghost_scoring and spre = "[q_scoring]" and spost = "[]"
            and blank = blank_scoring] e s
  show ?thesis
    by (simp add: dangling_rule_def ghost_scoring_def blank_scoring_def py_in_def get_or_def
          get_none_def py_eq_def)
qed

subsection \<open>C7: rows without their key field\<close>

text \<open>
  C7: for every list of flat rows, each rows-to-model converter (\<^verbatim>\<open>input_rows_to_tool\<close> on
  \<^verbatim>\<open>id\<close>, \<^verbatim>\<open>scoring_rows_to_tool\<close> on \<^verbatim>\<open>input_id\<close>, \<^verbatim>\<open>rule_rows_to_tool\<close> on \<^verbatim>\<open>name\<close>)
  leaves out every row that lacks its key field and raises nothing for it: the result is
  the one of the list without that row, the output has exactly one entry per row that has
  the key field, and so its length is at most the length of the input.
\<close>

theorem rows_missing_key_dropped:
  "(lacks (ir_id irow) \<longrightarrow>
      input_rows_to_tool (ipre @ irow # ipost) = input_rows_to_tool (ipre @ ipost)) \<and>
   (input_rows_to_tool irows = Inr inputs \<longrightarrow>
      length inputs = length (filter (\<lambda>row. \<not> lacks (ir_id row)) irows) \<and>
      length inputs \<le> length irows) \<and>
   (lacks (sr_input_id srow) \<longrightarrow>
      scoring_rows_to_tool (spre @ srow # spost) = scoring_rows_to_tool (spre @ spost)) \<and>
   (scoring_rows_to_tool srows = Inr scorings \<longrightarrow>
      length scorings = length (filter (\<lambda>row. \<not> lacks (sr_input_id row)) srows) \<and>
      length scorings \<le> length srows) \<and>
   (lacks (rr_name rrow) \<longrightarrow>
      rule_rows_to_tool (rpre @ rrow # rpost) = rule_rows_to_tool (rpre @ rpost)) \<and>
   (rule_rows_to_tool rrows = Inr rules \<longrightarrow>
      length rules = length (filter (\<lambda>row. \<not> lacks (rr_name row)) rrows) \<and>
      length rules \<le> length rrows)"
proof -
  have i1: "input_rows_to_tool (ipre @ irow # ipost) = input_rows_to_tool (ipre @ ipost)"
    if "lacks (ir_id irow)"
    using that by (simp add: input_rows_to_tool_def collect_rows_skip input_of_row_None)
  have s1: "scoring_rows_to_tool (spre @ srow # spost) = scoring_rows_to_tool (spre @ spost)"
    if "lacks (sr_input_id srow)"
    using that by (simp add: scoring_rows_to_tool_def collect_rows_skip scoring_of_row_None)
  have r1: "rule_rows_to_tool (rpre @ rrow # rpost) = rule_rows_to_tool (rpre @ rpost)"
    if "lacks (rr_name rrow)"
    using that by (simp add: rule_rows_to_tool_def collect_rows_skip rule_of_row_None)
  have i2: "length inputs = length (filter (\<lambda>row. \<not> lacks (ir_id row)) irows) \<and>
            length inputs \<le> length irows"
    if "input_rows_to_tool irows = Inr inputs"
    using collect_rows_length [of input_of_row "\<lambda>row. lacks (ir_id row)" irows inputs] that
    by (simp add: input_rows_to_tool_def input_of_row_None)
  have s2: "length scorings = length (filter (\<lambda>row. \<not> lacks (sr_input_id row)) srows) \<and>
            length scorings \<le> length srows"
    if "scoring_rows_to_tool srows = Inr scorings"
    using collect_rows_length [of scoring_of_row "\<lambda>row. lacks (sr_input_id row)" srows scorings]
      that
    by (simp add: scoring_rows_to_tool_def scoring_of_row_None)
  have r2: "length rules = length (filter (\<lambda>row. \<not> lacks (rr_name row)) rrows) \<and>
            length rules \<le> length rrows"
    if "rule_rows_to_tool rrows = Inr rules"
    using collect_rows_length [of rule_of_row "\<lambda>row. lacks (rr_name row)" rrows rules] that
    by (simp add: rule_rows_to_tool_def rule_of_row_None)
  from i1 i2 s1 s2 r1 r2 show ?thesis by blast
qed

theorem rows_missing_key_dropped_witness:
  "lacks (ir_id blank_input_row) \<and> lacks (sr_input_id blank_scoring_row) \<and>
   lacks (rr_name blank_rule_row) \<and>
   input_rows_to_tool [q_input_row] = Inr [q_input] \<and>
   scoring_rows_to_tool [q_scoring_row] = Inr [q_scoring] \<and>
   rule_rows_to_tool [go_row] = Inr [go_rule] \<and>
   input_rows_to_tool ([] @ blank_input_row # [q_input_row]) = Inr [q_input] \<and>
   scoring_rows_to_tool ([q_scoring_row] @ blank_scoring_row # []) = Inr [q_scoring] \<and>
   rule_rows_to_tool ([] @ blank_rule_row # [go_row]) = Inr [go_rule] \<and>
   length [q_input] \<le> length [q_input_row] \<and>
   length [q_scoring] \<le> length [q_scoring_row] \<and>
   length [go_rule] \<le> length [go_row]"
proof -
  have i: "input_rows_to_tool [q_input_row] = Inr [q_input]"
    by (simp add: input_rows_to_tool_def input_of_row_def q_input_row_def q_input_def
          get_or_def get_none_def strip_def py_isspace_def)
  have s: "scoring_rows_to_tool [q_scoring_row] = Inr [q_scoring]"
    by (simp add: scoring_rows_to_tool_def scoring_of_row_def q_scoring_row_def q_scoring_def
          get_or_def get_none_def strip_def py_isspace_def)
  have r: "rule_rows_to_tool [go_row] = Inr [go_rule]"
    by (simp add: rule_rows_to_tool_def rule_of_row_def go_row_def go_rule_def
          yes_condition_def slot_input_id_def slot_value_def get_or_def get_none_def
          strip_def py_isspace_def py_eq_def)
  have l: "lacks (ir_id blank_input_row) \<and> lacks (sr_input_id blank_scoring_row) \<and>
           lacks (rr_name blank_rule_row)"
    by (simp add: lacks_def blank_input_row_def blank_scoring_row_def blank_rule_row_def
          get_none_def get_or_def)
  from rows_missing_key_dropped
         [where irow = blank_input_row and ipre = "[]" and ipost = "[q_input_row]"
            and irows = "[q_input_row]" and inputs = "[q_input]"
            and srow = blank_scoring_row and spre = "[q_scoring_row]" and spost = "[]"
            and srows = "[q_scoring_row]" and scorings = "[q_scoring]"
            and rrow = blank_rule_row and rpre = "[]" and rpost = "[go_row]"
            and rrows = "[go_row]" and rules = "[go_rule]"] i s r l
  show ?thesis by simp
qed

subsection \<open>C8: bounds of the two counters\<close>

text \<open>
  C8: for every tool and values mapping, \<^verbatim>\<open>compute_scores\<close> returns a pair
  (favor_count, against_count) of non-negative integers, each at most the number of
  entries of \<^verbatim>\<open>tool.scoring_rules\<close>.
\<close>

theorem compute_scores_bounds:
  "0 \<le> fst (compute_scores tool vals) \<and>
   fst (compute_scores tool vals) \<le> int (length (get_or (t_scoring_rules tool) [])) \<and>
   0 \<le> snd (compute_scores tool vals) \<and>
   snd (compute_scores tool vals) \<le> int (length (get_or (t_scoring_rules tool) []))"
  by (simp add: compute_scores_def scores_loop_count count_polarity_bounds)

theorem compute_scores_bounds_witness:
  "compute_scores example_tool [''q'' \<mapsto> PStr ''No''] = (0, 1) \<and>
   0 \<le> fst (compute_scores example_tool [''q'' \<mapsto> PStr ''No'']) \<and>
   fst (compute_scores example_tool [''q'' \<mapsto> PStr ''No''])
     \<le> int (length (get_or (t_scoring_rules example_tool) [])) \<and>
   0 \<le> snd (compute_scores example_tool [''q'' \<mapsto> PStr ''No'']) \<and>
   snd (compute_scores example_tool [''q'' \<mapsto> PStr ''No''])
     \<le> int (length (get_or (t_scoring_rules example_tool) []))"
proof -
  have "compute_scores example_tool [''q'' \<mapsto> PStr ''No''] = (0, 1)"
    by (simp add: compute_scores_def rule_score_def example_tool_def q_scoring_def py_in_def
          get_or_def get_none_def py_eq_def)
  with compute_scores_bounds [of example_tool "[''q'' \<mapsto> PStr ''No'']"]
  show ?thesis by blast
qed

subsection \<open>C9: the conditions that rule rows produce\<close>

text \<open>
  C9: for every list of rule rows, every recommendation rule that \<^verbatim>\<open>rule_rows_to_tool\<close>
  produces has at most 3 conditions, and each of them has \<^verbatim>\<open>op\<close> equal to \<^verbatim>\<open>"equals"\<close>, an
  \<^verbatim>\<open>input_id\<close> that is a non-empty string without leading or trailing whitespace, and a
  value different from the empty string.
\<close>

theorem rule_rows_conditions:
  assumes "rule_rows_to_tool rows = Inr rules"
  shows "list_all transcoded_rule rules"
proof -
  have "transcoded_rule rule" if "rule \<in> set rules" for rule
  proof -
    from collect_rows_set [of rule_of_row rows rules rule] assms that
    obtain row where "rule_of_row row = Inr (Some rule)"
      by (auto simp: rule_rows_to_tool_def)
    then show ?thesis by (rule rule_of_row_transcoded)
  qed
  then show ?thesis by (simp add: list_all_iff)
qed

theorem rule_rows_conditions_witness:
  "rule_rows_to_tool [go_row, none_row] = Inr [go_rule, none_rule] \<and>
   list_all transcoded_rule [go_rule, none_rule]"
proof -
  have h: "rule_rows_to_tool [go_row, none_row] = Inr [go_rule, none_rule]"
    by (simp add: rule_rows_to_tool_def rule_of_row_def go_row_def go_rule_def none_row_def
          none_rule_def yes_condition_def slot_input_id_def slot_value_def get_or_def
          get_none_def strip_def py_isspace_def py_eq_def)
  from rule_rows_conditions [OF h] h show ?thesis by simp
qed

subsection \<open>C10: the sum of the two counters\<close>

text \<open>
  C10: for every tool and values mapping, the two counters that \<^verbatim>\<open>compute_scores\<close> returns
  satisfy favor_count + against_count \<le> number of entries of \<^verbatim>\<open>tool.scoring_rules\<close>: one
  scoring rule adds 1 to at most one of the two counters, never to both.
\<close>

theorem compute_scores_sum:
  "fst (compute_scores tool vals) + snd (compute_scores tool vals)
     \<le> int (length (get_or (t_scoring_rules tool) [])) \<and>
   scores_loop [rule] vals (p, m) \<in> {(p, m), (p + 1, m), (p, m + 1)}"
proof -
  have "fst (compute_scores tool vals) + snd (compute_scores tool vals)
          \<le> int (length (get_or (t_scoring_rules tool) []))"
    by (simp add: compute_scores_def scores_loop_count count_polarity_sum)
  moreover have "scores_loop [rule] vals (p, m) \<in> {(p, m), (p + 1, m), (p, m + 1)}"
    by (simp add: Let_def)
  ultimately show ?thesis by blast
qed

theorem compute_scores_sum_witness:
  "compute_scores (example_tool\<lparr>t_scoring_rules := Some [q_scoring, both_scoring]\<rparr>)
     [''q'' \<mapsto> PStr ''Yes''] = (1, 1) \<and>
   fst (compute_scores (example_tool\<lparr>t_scoring_rules := Some [q_scoring, both_scoring]\<rparr>)
          [''q'' \<mapsto> PStr ''Yes'']) +
   snd (compute_scores (example_tool\<lparr>t_scoring_rules := Some [q_scoring, both_scoring]\<rparr>)
          [''q'' \<mapsto> PStr ''Yes''])
     \<le> int (length (get_or (t_scoring_rules
           (example_tool\<lparr>t_scoring_rules := Some [q_scoring, both_scoring]\<rparr>)) [])) \<and>
   scores_loop [both_scoring] [''q'' \<mapsto> PStr ''Yes''] (0, 0) \<in> {(0, 0), (0 + 1, 0), (0, 0 + 1)}"
proof -
  have "compute_scores (example_tool\<lparr>t_scoring_rules := Some [q_scoring, both_scoring]\<rparr>)
          [''q'' \<mapsto> PStr ''Yes''] = (1, 1)"
    by (simp add: compute_scores_def rule_score_def q_scoring_def both_scoring_def py_in_def
          get_or_def get_none_def py_eq_def)
  with compute_scores_sum
         [of "example_tool\<lparr>t_scoring_rules := Some [q_scoring, both_scoring]\<rparr>"
             "[''q'' \<mapsto> PStr ''Yes'']" both_scoring 0 0]
  show ?thesis by blast
qed

end
